theory Spec2Isabelle
  imports Complex_Main
begin

section \<open>Python values and exceptions\<close>

text \<open>
  The program handles the decoded JSON payloads of two web services as Python
  dictionaries, lists, strings and numbers. The payloads are not validated, so the model
  keeps every shape a decoded payload can have. \<open>JNull\<close> is Python's \<open>None\<close>
  (a missing key read with \<open>.get\<close> and a JSON \<open>null\<close> are the same value in the
  source). A dictionary is an association list read with \<open>map_of\<close> (a decoded
  object has each key once). Floats are real
  numbers (the non-finite values are left out); strings are lists of 8-bit characters,
  so the text of a payload or of the entry field is limited to Latin-1 code points.
\<close>

datatype json =
    JNull
  | JBool bool
  | JInt int
  | JFloat real
  | JStr string
  | JArr "json list"
  | JObj "(string \<times> json) list"

text \<open>
  The exceptions the program can meet. The first five are raised by the interpreter on
  the operations below; \<open>RequestException\<close> is the base class of the HTTP library's
  errors; \<open>LibraryError\<close> stands for any other exception raised inside an external
  library (the generative-text client, the date and image libraries, the map widget).
  All of them are subclasses of Python's \<open>Exception\<close>.
\<close>

datatype exn =
    KeyError
  | TypeError
  | AttributeError
  | IndexError
  | ValueError
  | RequestException string
  | LibraryError string

definition bnd :: "exn + 'a \<Rightarrow> ('a \<Rightarrow> exn + 'b) \<Rightarrow> exn + 'b" where
  "bnd m f = (case m of Inl e \<Rightarrow> Inl e | Inr x \<Rightarrow> f x)"

fun map_exn :: "('a \<Rightarrow> exn + 'b) \<Rightarrow> 'a list \<Rightarrow> exn + 'b list" where
  "map_exn f [] = Inr []"
| "map_exn f (x # xs) = bnd (f x) (\<lambda>y. bnd (map_exn f xs) (\<lambda>ys. Inr (y # ys)))"

text \<open>Truth value of a Python object, as \<open>if v:\<close> and \<open>and\<close> test it.\<close>

fun truthy :: "json \<Rightarrow> bool" where
  "truthy JNull = False"
| "truthy (JBool b) = b"
| "truthy (JInt i) = (i \<noteq> 0)"
| "truthy (JFloat r) = (r \<noteq> 0)"
| "truthy (JStr s) = (s \<noteq> [])"
| "truthy (JArr xs) = (xs \<noteq> [])"
| "truthy (JObj kvs) = (kvs \<noteq> [])"

text \<open>\<open>d.get(k, dflt)\<close>: only a dictionary has the method.\<close>

fun dict_get :: "json \<Rightarrow> string \<Rightarrow> json \<Rightarrow> exn + json" where
  "dict_get (JObj kvs) k dflt = Inr (case map_of kvs k of None \<Rightarrow> dflt | Some v \<Rightarrow> v)"
| "dict_get _ k dflt = Inl AttributeError"

text \<open>\<open>v[k]\<close> with a string key \<open>k\<close>.\<close>

fun subscript_key :: "json \<Rightarrow> string \<Rightarrow> exn + json" where
  "subscript_key (JObj kvs) k = (case map_of kvs k of None \<Rightarrow> Inl KeyError | Some v \<Rightarrow> Inr v)"
| "subscript_key _ k = Inl TypeError"

text \<open>\<open>v[0]\<close>. The keys of a decoded JSON object are strings, so \<open>0\<close> is never a key.\<close>

fun subscript_0 :: "json \<Rightarrow> exn + json" where
  "subscript_0 (JArr []) = Inl IndexError"
| "subscript_0 (JArr (x # xs)) = Inr x"
| "subscript_0 (JStr []) = Inl IndexError"
| "subscript_0 (JStr (c # cs)) = Inr (JStr [c])"
| "subscript_0 (JObj kvs) = Inl KeyError"
| "subscript_0 _ = Inl TypeError"

text \<open>
  \<open>v[:n]\<close>. A slice of a dictionary is refused (a \<open>TypeError\<close> up to CPython 3.11, a
  \<open>KeyError\<close> from 3.12 on; the model takes the first).
\<close>

fun slice_to :: "nat \<Rightarrow> json \<Rightarrow> exn + json" where
  "slice_to n (JArr xs) = Inr (JArr (take n xs))"
| "slice_to n (JStr s) = Inr (JStr (take n s))"
| "slice_to n _ = Inl TypeError"

text \<open>The elements a \<open>for\<close> loop draws from \<open>v\<close>.\<close>

fun py_iter :: "json \<Rightarrow> exn + json list" where
  "py_iter (JArr xs) = Inr xs"
| "py_iter (JStr s) = Inr (map (\<lambda>c. JStr [c]) s)"
| "py_iter (JObj kvs) = Inr (map (\<lambda>kv. JStr (fst kv)) kvs)"
| "py_iter _ = Inl TypeError"

fun starts_with :: "string \<Rightarrow> string \<Rightarrow> bool" where
  "starts_with [] s = True"
| "starts_with (c # cs) [] = False"
| "starts_with (c # cs) (d # ds) = (c = d \<and> starts_with cs ds)"

text \<open>\<open>sub in s\<close> on two strings: \<open>sub\<close> occurs in \<open>s\<close> as a contiguous piece.\<close>

fun contains :: "string \<Rightarrow> string \<Rightarrow> bool" where
  "contains sub [] = (sub = [])"
| "contains sub (c # s) = (starts_with sub (c # s) \<or> contains sub s)"

text \<open>\<open>k in v\<close> for a string \<open>k\<close>.\<close>

fun py_in :: "string \<Rightarrow> json \<Rightarrow> exn + bool" where
  "py_in k (JObj kvs) = Inr (k \<in> set (map fst kvs))"
| "py_in k (JArr xs) = Inr (JStr k \<in> set xs)"
| "py_in k (JStr s) = Inr (contains k s)"
| "py_in k _ = Inl TypeError"

text \<open>\<open>v != 200\<close>. A Boolean equals \<open>0\<close> or \<open>1\<close>, never \<open>200\<close>.\<close>

fun ne_200 :: "json \<Rightarrow> bool" where
  "ne_200 (JInt i) = (i \<noteq> 200)"
| "ne_200 (JFloat r) = (r \<noteq> 200)"
| "ne_200 _ = True"

text \<open>\<open>s.strip()\<close>: the white space of Latin-1 is removed at both ends.\<close>

definition is_space :: "char \<Rightarrow> bool" where
  "is_space c = (of_char c \<in> set [9, 10, 11, 12, 13, 28, 29, 30, 31, 32, 133, 160 :: nat])"

definition strip :: "string \<Rightarrow> string" where
  "strip s = rev (dropWhile is_space (rev (dropWhile is_space s)))"

definition nl :: string where
  "nl = [CHR 0x0A]"

text \<open>
  The two characters that stand before \<open>C\<close> and after a temperature in the source's
  literals (U+00AC and U+221E), as the bytes of their UTF-8 encoding.
\<close>

definition deg :: string where
  "deg = [CHR 0xC2, CHR 0xAC, CHR 0xE2, CHR 0x88, CHR 0x9E]"

section \<open>The world outside the program\<close>

text \<open>
  What the libraries and the network answer is not decided by the program; the model
  takes it as a record of functions, and every theorem holds for all of them.
  \<^item> \<open>api_key\<close>: the environment variable \<open>weather_api\<close> (\<open>None\<close> when unset).
  \<^item> \<open>http_get url params\<close>: \<open>requests.get(url, params=params, timeout=5)\<close>
    followed by \<open>response.json()\<close>: the status code and the decoded body, or the
    exception raised by either call.
  \<^item> \<open>icon_get url\<close>: the download, decoding, resizing and conversion of an icon: the
    image, or the exception raised on the way.
  \<^item> \<open>generate model prompt\<close>: \<open>genai.GenerativeModel(model).generate_content(prompt).text\<close>.
  \<^item> \<open>str_exc\<close>: \<open>str(e)\<close> of an exception.
  \<^item> \<open>py_str\<close>: the text of a value in an f-string or a widget.
  \<^item> \<open>fmt_1f\<close>: the format \<open>:.1f\<close>; \<open>int_str\<close>: the text of \<open>int(v)\<close>;
    \<open>title\<close>: \<open>str.title\<close>.
  \<^item> \<open>fromtimestamp fmt v\<close>: \<open>datetime.fromtimestamp(v).strftime(fmt)\<close>.
  \<^item> \<open>strptime_day d\<close>: \<open>datetime.strptime(d, "%Y-%m-%d").strftime("%a")\<close>.
  \<^item> \<open>today\<close>: \<open>datetime.now().strftime("%A, %d %B %Y")\<close>.
  \<^item> \<open>set_position\<close>, \<open>set_marker\<close>: the map widget's methods; \<open>None\<close> when they
    return, the exception otherwise.
\<close>

record ext =
  api_key :: "string option"
  http_get :: "string \<Rightarrow> (string \<times> string) list \<Rightarrow> exn + (nat \<times> json)"
  icon_get :: "string \<Rightarrow> exn + string"
  generate :: "string \<Rightarrow> string \<Rightarrow> exn + string"
  str_exc :: "exn \<Rightarrow> string"
  py_str :: "json \<Rightarrow> string"
  fmt_1f :: "json \<Rightarrow> exn + string"
  int_str :: "json \<Rightarrow> exn + string"
  title :: "string \<Rightarrow> string"
  fromtimestamp :: "string \<Rightarrow> json \<Rightarrow> exn + string"
  strptime_day :: "string \<Rightarrow> exn + string"
  today :: string
  set_position :: "json \<Rightarrow> json \<Rightarrow> exn option"
  set_marker :: "json \<Rightarrow> json \<Rightarrow> json \<Rightarrow> exn option"

section \<open>The advisory generator\<close>

text \<open>
  One line of the forecast summary (the body of the loop of
  \<open>analyze_weather_with_ai\<close>). The subscripts are read in the source's order, and the
  first that fails ends the line with its exception.
\<close>

definition forecast_line :: "ext \<Rightarrow> json \<Rightarrow> exn + string" where
  "forecast_line X f =
     bnd (subscript_key f ''dt'') (\<lambda>t.
     bnd (fromtimestamp X ''%Y-%m-%d %H:%M'' t) (\<lambda>dt.
     bnd (subscript_key f ''main'') (\<lambda>m1.
     bnd (subscript_key m1 ''temp'') (\<lambda>temp.
     bnd (subscript_key f ''main'') (\<lambda>m2.
     bnd (subscript_key m2 ''feels_like'') (\<lambda>feels.
     bnd (subscript_key f ''main'') (\<lambda>m3.
     bnd (subscript_key m3 ''humidity'') (\<lambda>humidity.
     bnd (subscript_key f ''weather'') (\<lambda>w.
     bnd (subscript_0 w) (\<lambda>w0.
     bnd (subscript_key w0 ''description'') (\<lambda>desc.
     bnd (subscript_key f ''wind'') (\<lambda>wi.
     bnd (subscript_key wi ''speed'') (\<lambda>wind_speed.
       Inr (dt @ '': '' @ py_str X temp @ deg @ ''C (feels '' @ py_str X feels @ deg
            @ ''C), '' @ py_str X desc @ '', Humidity: '' @ py_str X humidity
            @ ''%, Wind: '' @ py_str X wind_speed @ '' m/s''))))))))))))))"

text \<open>
  \<open>forecast_summary\<close>: empty unless \<open>forecast_data\<close> is true and has \<open>'list'\<close>; then
  one line for each of the first eight entries.
\<close>

definition forecast_summary :: "ext \<Rightarrow> json \<Rightarrow> exn + string list" where
  "forecast_summary X forecast_data =
     (if truthy forecast_data then
        bnd (py_in ''list'' forecast_data) (\<lambda>has.
          if has then
            bnd (subscript_key forecast_data ''list'') (\<lambda>l.
            bnd (slice_to 8 l) (\<lambda>l8.
            bnd (py_iter l8) (map_exn (forecast_line X))))
          else Inr [])
      else Inr [])"

text \<open>\<open>chr(10).join(lines)\<close>.\<close>

fun join_lines :: "string list \<Rightarrow> string" where
  "join_lines [] = []"
| "join_lines [l] = l"
| "join_lines (l # ls) = l @ nl @ join_lines ls"

definition build_prompt :: "ext \<Rightarrow> json \<Rightarrow> json \<Rightarrow> exn + string" where
  "build_prompt X weather_data forecast_data =
     bnd (dict_get weather_data ''main'' (JObj [])) (\<lambda>current.
     bnd (dict_get weather_data ''weather'' (JArr [JObj []])) (\<lambda>wl.
     bnd (subscript_0 wl) (\<lambda>w0.
     bnd (dict_get w0 ''description'' (JStr ''N/A'')) (\<lambda>weather_desc.
     bnd (dict_get weather_data ''name'' (JStr ''Unknown'')) (\<lambda>city_name.
     bnd (dict_get weather_data ''wind'' (JObj [])) (\<lambda>wind.
     bnd (forecast_summary X forecast_data) (\<lambda>summary.
     bnd (dict_get current ''temp'' (JStr ''N/A'')) (\<lambda>temp.
     bnd (dict_get current ''feels_like'' (JStr ''N/A'')) (\<lambda>feels.
     bnd (dict_get current ''humidity'' (JStr ''N/A'')) (\<lambda>humidity.
     bnd (dict_get current ''pressure'' (JStr ''N/A'')) (\<lambda>pressure.
     bnd (dict_get wind ''speed'' (JStr ''N/A'')) (\<lambda>speed.
       Inr (''You are a professional meteorologist. Analyze this weather data for ''
            @ py_str X city_name @ '' and provide practical advice:'' @ nl @ nl
            @ ''CURRENT CONDITIONS:'' @ nl
            @ ''- Temperature: '' @ py_str X temp @ deg @ ''C'' @ nl
            @ ''- Feels Like: '' @ py_str X feels @ deg @ ''C'' @ nl
            @ ''- Humidity: '' @ py_str X humidity @ ''%'' @ nl
            @ ''- Pressure: '' @ py_str X pressure @ '' hPa'' @ nl
            @ ''- Weather: '' @ py_str X weather_desc @ nl
            @ ''- Wind Speed: '' @ py_str X speed @ '' m/s'' @ nl @ nl
            @ ''24-HOUR FORECAST:'' @ nl
            @ join_lines summary @ nl @ nl
            @ ''Based on this complete weather data, provide expert advice on:'' @ nl
            @ ''1. Health and wellness impact'' @ nl
            @ ''2. Best activities for today'' @ nl
            @ ''3. What to wear'' @ nl
            @ ''4. Travel conditions'' @ nl
            @ ''5. Any weather warnings or precautions'' @ nl @ nl
            @ ''Keep your response conversational and practical, around 150-200 words.'')))))))))))))"

definition models_to_try :: "string list" where
  "models_to_try =
     [''gemini-2.0-flash-lite'', ''gemini-flash-latest'', ''gemini-2.0-flash'',
      ''gemini-2.0-flash-exp'']"

text \<open>
  The loop over the models. It returns the text of the first model that answers (if
  any), the value of \<open>last_error\<close> when it stops, and the models it has called, in
  order. The inner \<open>except Exception\<close> catches every failure of a model; the line it
  prints on the console is not part of the model.
\<close>

fun try_models ::
  "ext \<Rightarrow> string \<Rightarrow> string list \<Rightarrow> exn option \<Rightarrow> string option \<times> exn option \<times> string list"
where
  "try_models X prompt [] last_error = (None, last_error, [])"
| "try_models X prompt (model_name # rest) last_error =
     (case generate X model_name prompt of
        Inr txt \<Rightarrow> (Some txt, last_error, [model_name])
      | Inl e \<Rightarrow>
          (case try_models X prompt rest (Some e) of
             (r, l, tried) \<Rightarrow> (r, l, model_name # tried)))"

definition unavailable :: string where
  "unavailable =
     ''AI Analysis currently unavailable (Quota limit reached). Please try again later.''
     @ nl @ ''Details: ''"

text \<open>\<open>str(last_error)\<close>; \<open>last_error\<close> is \<open>None\<close> until a model has failed.\<close>

definition str_last :: "ext \<Rightarrow> exn option \<Rightarrow> string" where
  "str_last X last_error = (case last_error of None \<Rightarrow> ''None'' | Some e \<Rightarrow> str_exc X e)"

text \<open>
  The body of the outer \<open>try\<close>: the prompt, then the models. The second component lists
  the models called.
\<close>

definition analyze_body :: "ext \<Rightarrow> json \<Rightarrow> json \<Rightarrow> (exn + string) \<times> string list" where
  "analyze_body X weather_data forecast_data =
     (case build_prompt X weather_data forecast_data of
        Inl e \<Rightarrow> (Inl e, [])
      | Inr prompt \<Rightarrow>
          (case try_models X prompt models_to_try None of
             (Some txt, last_error, tried) \<Rightarrow> (Inr txt, tried)
           | (None, last_error, tried) \<Rightarrow> (Inr (unavailable @ str_last X last_error), tried)))"

text \<open>
  \<open>analyze_weather_with_ai\<close>: the body under \<open>except Exception as e\<close>. \<open>Inl\<close> in the
  result would be an exception that reaches the caller.
\<close>

definition analyze_weather_with_ai :: "ext \<Rightarrow> json \<Rightarrow> json \<Rightarrow> (exn + string) \<times> string list" where
  "analyze_weather_with_ai X weather_data forecast_data =
     (case analyze_body X weather_data forecast_data of
        (Inl e, tried) \<Rightarrow> (Inr (''AI Analysis unavailable: '' @ str_exc X e), tried)
      | (Inr txt, tried) \<Rightarrow> (Inr txt, tried))"

section \<open>The interface state\<close>

text \<open>
  The widgets, dialogs and requests the functions act on. \<open>net_log\<close> lists every HTTP
  request the program has sent (URL and query parameters), \<open>dialogs\<close> every message box
  it has shown. \<open>ai_calls\<close> lists the arguments of every call of
  \<open>analyze_weather_with_ai\<close> and \<open>models_called\<close> the models those calls have asked.
  A forecast card keeps the loop variables \<open>date\<close> and \<open>mid\<close> it is drawn from;
  \<open>card_icon = None\<close> is the placeholder label and \<open>card_temp = None\<close> a card whose
  temperature label was never made. Widget operations themselves are taken to succeed.
\<close>

datatype dialog = ShowWarning string string | ShowError string string

record day_card =
  card_date :: string
  card_mid :: json
  card_day :: string
  card_icon :: "string option"
  card_temp :: "string option"

record ui =
  city_entry :: string
  net_log :: "(string \<times> (string \<times> string) list) list"
  dialogs :: "dialog list"
  lbl_city :: string
  lbl_date :: string
  lbl_temp :: string
  lbl_desc :: string
  lbl_stat_wind :: string
  lbl_stat_humid :: string
  lbl_stat_press :: string
  lbl_stat_feels :: string
  lbl_icon :: "string option"
  map_position :: "(json \<times> json) option"
  map_markers :: "(json \<times> json \<times> json) list"
  forecast_cards :: "day_card list"
  table_rows :: "string list list"
  ai_text :: string
  ai_calls :: "(json \<times> json) list"
  models_called :: "string list"

text \<open>
  A statement sequence: it runs on a state and ends with a value or an exception, and
  with the state it has reached.
\<close>

type_synonym 'a act = "ui \<Rightarrow> (exn + 'a) \<times> ui"

definition ret :: "'a \<Rightarrow> 'a act" where
  "ret x s = (Inr x, s)"

definition lift :: "exn + 'a \<Rightarrow> 'a act" where
  "lift m s = (m, s)"

definition upd :: "(ui \<Rightarrow> ui) \<Rightarrow> unit act" where
  "upd g s = (Inr (), g s)"

definition seq :: "'a act \<Rightarrow> ('a \<Rightarrow> 'b act) \<Rightarrow> 'b act" where
  "seq m f s = (case m s of (Inl e, s1) \<Rightarrow> (Inl e, s1) | (Inr x, s1) \<Rightarrow> f x s1)"

definition show_dialog :: "dialog \<Rightarrow> unit act" where
  "show_dialog d = upd (\<lambda>s. s\<lparr>dialogs := dialogs s @ [d]\<rparr>)"

definition input_warning :: dialog where
  "input_warning = ShowWarning ''Input error'' ''Please enter a city name.''"

fun is_request_exception :: "exn \<Rightarrow> bool" where
  "is_request_exception (RequestException m) = True"
| "is_request_exception _ = False"

definition network_error :: "ext \<Rightarrow> exn \<Rightarrow> dialog" where
  "network_error X e = ShowError ''Network error'' (''Could not reach server:'' @ nl @ str_exc X e)"

definition BASE_URL :: string where
  "BASE_URL = ''https://api.openweathermap.org/data/2.5/weather''"

definition FORECAST_URL :: string where
  "FORECAST_URL = ''http://api.openweathermap.org/data/2.5/forecast''"

text \<open>The query of both fetchers; the HTTP library leaves out a parameter that is \<open>None\<close>.\<close>

definition query_params :: "ext \<Rightarrow> string \<Rightarrow> (string \<times> string) list" where
  "query_params X city =
     (''q'', city) # (case api_key X of None \<Rightarrow> [] | Some k \<Rightarrow> [(''appid'', k)])
       @ [(''units'', ''metric'')]"

definition request :: "ext \<Rightarrow> string \<Rightarrow> (string \<times> string) list \<Rightarrow> (nat \<times> json) act" where
  "request X url params s = (http_get X url params, s\<lparr>net_log := net_log s @ [(url, params)]\<rparr>)"

section \<open>The current-conditions fetcher\<close>

text \<open>\<open>weather_list[0].get(k) if weather_list else dflt\<close>.\<close>

definition first_get :: "json \<Rightarrow> string \<Rightarrow> json \<Rightarrow> exn + json" where
  "first_get weather_list k dflt =
     (if truthy weather_list then bnd (subscript_0 weather_list) (\<lambda>w0. dict_get w0 k JNull)
      else Inr dflt)"

text \<open>\<open>v.title()\<close>: a method of strings only.\<close>

fun str_title :: "ext \<Rightarrow> json \<Rightarrow> exn + string" where
  "str_title X (JStr s) = Inr (title X s)"
| "str_title X _ = Inl AttributeError"

definition map_set_position :: "ext \<Rightarrow> json \<Rightarrow> json \<Rightarrow> unit act" where
  "map_set_position X lat lon s =
     (case set_position X lat lon of
        Some e \<Rightarrow> (Inl e, s)
      | None \<Rightarrow> (Inr (), s\<lparr>map_position := Some (lat, lon)\<rparr>))"

definition map_set_marker :: "ext \<Rightarrow> json \<Rightarrow> json \<Rightarrow> json \<Rightarrow> unit act" where
  "map_set_marker X lat lon name s =
     (case set_marker X lat lon name of
        Some e \<Rightarrow> (Inl e, s)
      | None \<Rightarrow> (Inr (), s\<lparr>map_markers := map_markers s @ [(lat, lon, name)]\<rparr>))"

text \<open>\<open>if coord.get("lat") and coord.get("lon"): ...\<close>\<close>

definition update_map :: "ext \<Rightarrow> json \<Rightarrow> json \<Rightarrow> unit act" where
  "update_map X coord city_name =
     seq (lift (dict_get coord ''lat'' JNull)) (\<lambda>lat.
       if truthy lat then
         seq (lift (dict_get coord ''lon'' JNull)) (\<lambda>lon.
           if truthy lon then
             seq (map_set_position X lat lon) (\<lambda>_. map_set_marker X lat lon city_name)
           else ret ())
       else ret ())"

text \<open>
  The icon of the current conditions. The bare \<open>except: pass\<close> ends the block on any
  exception; the label changes only when the whole block has run.
\<close>

definition show_icon :: "ext \<Rightarrow> json \<Rightarrow> unit act" where
  "show_icon X icon_code s =
     (if truthy icon_code then
        (let icon_url = ''http://openweathermap.org/img/wn/'' @ py_str X icon_code @ ''@4x.png'';
             s1 = s\<lparr>net_log := net_log s @ [(icon_url, [])]\<rparr>
         in case icon_get X icon_url of
              Inl e \<Rightarrow> (Inr (), s1)
            | Inr icon_img \<Rightarrow> (Inr (), s1\<lparr>lbl_icon := Some icon_img\<rparr>))
      else (Inr (), s))"

text \<open>\<open>get_weather\<close> from \<open># Extract Data\<close> to the labels before \<open># Update Icon\<close>.\<close>

definition show_current :: "ext \<Rightarrow> string \<Rightarrow> json \<Rightarrow> json act" where
  "show_current X city data =
     seq (lift (dict_get data ''name'' (JStr city))) (\<lambda>city_name.
     seq (lift (dict_get data ''main'' (JObj []))) (\<lambda>main.
     seq (lift (dict_get data ''weather'' (JArr []))) (\<lambda>weather_list.
     seq (lift (dict_get data ''wind'' (JObj []))) (\<lambda>wind.
     seq (lift (dict_get main ''temp'' JNull)) (\<lambda>temp.
     seq (lift (dict_get main ''humidity'' JNull)) (\<lambda>humidity.
     seq (lift (dict_get main ''pressure'' JNull)) (\<lambda>pressure.
     seq (lift (dict_get main ''feels_like'' JNull)) (\<lambda>feels_like.
     seq (lift (first_get weather_list ''description'' (JStr ''N/A''))) (\<lambda>description.
     seq (lift (first_get weather_list ''icon'' JNull)) (\<lambda>icon_code.
     seq (lift (dict_get wind ''speed'' JNull)) (\<lambda>wind_speed.
     seq (lift (dict_get data ''coord'' (JObj []))) (\<lambda>coord.
     seq (update_map X coord city_name) (\<lambda>_.
     seq (upd (\<lambda>s. s\<lparr>lbl_city := py_str X city_name, lbl_date := today X\<rparr>)) (\<lambda>_.
     seq (if temp \<noteq> JNull then
            seq (lift (int_str X temp)) (\<lambda>t. upd (\<lambda>s. s\<lparr>lbl_temp := t @ deg\<rparr>))
          else ret ()) (\<lambda>_.
     seq (lift (str_title X description)) (\<lambda>d.
     seq (upd (\<lambda>s. s\<lparr>lbl_desc := d,
                       lbl_stat_wind := py_str X wind_speed @ '' m/s'',
                       lbl_stat_humid := py_str X humidity @ ''%'',
                       lbl_stat_press := py_str X pressure @ '' hPa''\<rparr>)) (\<lambda>_.
     seq (lift (fmt_1f X feels_like)) (\<lambda>fl.
     seq (upd (\<lambda>s. s\<lparr>lbl_stat_feels := fl @ deg\<rparr>)) (\<lambda>_.
       ret icon_code)))))))))))))))))))"

text \<open>\<open>get_weather\<close> from the test of \<open>cod\<close> to its end.\<close>

definition weather_reply :: "ext \<Rightarrow> string \<Rightarrow> json \<Rightarrow> json act" where
  "weather_reply X city data =
     seq (lift (dict_get data ''cod'' JNull)) (\<lambda>cod.
       if ne_200 cod then
         seq (lift (dict_get data ''message'' (JStr ''Unknown error''))) (\<lambda>message.
         seq (show_dialog (ShowError ''API error''
                (''Error from API:'' @ nl @ py_str X message))) (\<lambda>_.
           ret JNull))
       else
         seq (show_current X city data) (\<lambda>icon_code.
         seq (show_icon X icon_code) (\<lambda>_.
           ret data)))"

definition get_weather :: "ext \<Rightarrow> json act" where
  "get_weather X s =
     (let city = strip (city_entry s) in
      if city = [] then seq (show_dialog input_warning) (\<lambda>_. ret JNull) s
      else
        (case request X BASE_URL (query_params X city) s of
           (Inl e, s1) \<Rightarrow>
             if is_request_exception e then
               seq (show_dialog (network_error X e)) (\<lambda>_. ret JNull) s1
             else (Inl e, s1)
         | (Inr (status, data), s1) \<Rightarrow> weather_reply X city data s1))"

section \<open>The forecast aggregator\<close>

text \<open>\<open>f['dt_txt'].split(" ")[0]\<close>: the text before the first space.\<close>

definition entry_date :: "json \<Rightarrow> exn + string" where
  "entry_date f =
     bnd (subscript_key f ''dt_txt'') (\<lambda>t.
       case t of JStr s \<Rightarrow> Inr (takeWhile (\<lambda>c. c \<noteq> CHR '' '') s) | _ \<Rightarrow> Inl AttributeError)"

text \<open>
  \<open>daily.setdefault(d, []).append(f)\<close> on a dictionary that keeps the order in which its
  keys were first stored.
\<close>

fun group_add :: "string \<Rightarrow> json \<Rightarrow> (string \<times> json list) list \<Rightarrow> (string \<times> json list) list" where
  "group_add d f [] = [(d, [f])]"
| "group_add d f ((k, fs) # rest) =
     (if k = d then (k, fs @ [f]) # rest else (k, fs) # group_add d f rest)"

fun daily_groups ::
  "json list \<Rightarrow> (string \<times> json list) list \<Rightarrow> exn + (string \<times> json list) list"
where
  "daily_groups [] daily = Inr daily"
| "daily_groups (f # fs) daily =
     (case entry_date f of
        Inl e \<Rightarrow> Inl e
      | Inr d \<Rightarrow> daily_groups fs (group_add d f daily))"

text \<open>The days \<open>display_forecast\<close> draws: \<open>list(daily.items())[:5]\<close>.\<close>

definition forecast_buckets :: "json \<Rightarrow> exn + (string \<times> json list) list" where
  "forecast_buckets data =
     bnd (subscript_key data ''list'') (\<lambda>l.
     bnd (py_iter l) (\<lambda>entries.
     bnd (daily_groups entries []) (\<lambda>daily.
       Inr (take 5 daily))))"

text \<open>
  \<open>next((x for x in forecasts if "12:00:00" in x['dt_txt']), dflt)\<close>: the first entry
  that passes the test, \<open>dflt\<close> when none does.
\<close>

fun first_noon :: "json list \<Rightarrow> json \<Rightarrow> exn + json" where
  "first_noon [] dflt = Inr dflt"
| "first_noon (x # xs) dflt =
     bnd (subscript_key x ''dt_txt'') (\<lambda>t.
     bnd (py_in ''12:00:00'' t) (\<lambda>b.
       if b then Inr x else first_noon xs dflt))"

text \<open>
  The representative \<open>mid\<close> of a day. Python computes the default
  \<open>forecasts[len(forecasts)//2]\<close> before \<open>next\<close> runs.
\<close>

definition pick_mid :: "json list \<Rightarrow> exn + json" where
  "pick_mid forecasts =
     (if forecasts = [] then Inl IndexError
      else first_noon forecasts (forecasts ! (length forecasts div 2)))"

definition day_icon :: "ext \<Rightarrow> json \<Rightarrow> string option act" where
  "day_icon X icon s =
     (let icon_url = ''http://openweathermap.org/img/wn/'' @ py_str X icon @ ''@2x.png''
      in (Inr (case icon_get X icon_url of Inl e \<Rightarrow> None | Inr photo \<Rightarrow> Some photo),
          s\<lparr>net_log := net_log s @ [(icon_url, [])]\<rparr>))"

definition add_card :: "day_card \<Rightarrow> ui \<Rightarrow> ui" where
  "add_card c s = s\<lparr>forecast_cards := forecast_cards s @ [c]\<rparr>"

text \<open>The body of the loop over the days.\<close>

definition render_day :: "ext \<Rightarrow> string \<Rightarrow> json list \<Rightarrow> unit act" where
  "render_day X date forecasts =
     seq (lift (pick_mid forecasts)) (\<lambda>mid.
     seq (lift (bnd (subscript_key mid ''main'') (\<lambda>m. subscript_key m ''temp''))) (\<lambda>temp.
     seq (lift (bnd (subscript_key mid ''weather'') (\<lambda>w.
                bnd (subscript_0 w) (\<lambda>w0. subscript_key w0 ''icon'')))) (\<lambda>icon.
     seq (lift (strptime_day X date)) (\<lambda>day_name.
     seq (day_icon X icon) (\<lambda>photo. (\<lambda>s.
       case int_str X temp of
         Inl e \<Rightarrow>
           (Inl e, add_card \<lparr>card_date = date, card_mid = mid, card_day = day_name,
                             card_icon = photo, card_temp = None\<rparr> s)
       | Inr t \<Rightarrow>
           (Inr (), add_card \<lparr>card_date = date, card_mid = mid, card_day = day_name,
                              card_icon = photo, card_temp = Some (t @ deg)\<rparr> s)))))))"

fun render_days :: "ext \<Rightarrow> (string \<times> json list) list \<Rightarrow> unit act" where
  "render_days X [] s = (Inr (), s)"
| "render_days X ((date, forecasts) # rest) s =
     (case render_day X date forecasts s of
        (Inl e, s1) \<Rightarrow> (Inl e, s1)
      | (Inr u, s1) \<Rightarrow> render_days X rest s1)"

definition display_forecast :: "ext \<Rightarrow> json \<Rightarrow> unit act" where
  "display_forecast X data =
     seq (upd (\<lambda>s. s\<lparr>forecast_cards := []\<rparr>)) (\<lambda>_.
     seq (lift (forecast_buckets data)) (render_days X))"

section \<open>The hourly table\<close>

definition table_row :: "ext \<Rightarrow> json \<Rightarrow> exn + string list" where
  "table_row X f =
     bnd (subscript_key f ''dt'') (\<lambda>t.
     bnd (fromtimestamp X ''%a %H:%M'' t) (\<lambda>dt.
     bnd (subscript_key f ''main'') (\<lambda>m1.
     bnd (subscript_key m1 ''temp'') (\<lambda>tv.
     bnd (fmt_1f X tv) (\<lambda>temp.
     bnd (subscript_key f ''weather'') (\<lambda>w.
     bnd (subscript_0 w) (\<lambda>w0.
     bnd (subscript_key w0 ''description'') (\<lambda>d.
     bnd (str_title X d) (\<lambda>weather.
     bnd (subscript_key f ''wind'') (\<lambda>wi.
     bnd (subscript_key wi ''speed'') (\<lambda>wind.
     bnd (subscript_key f ''main'') (\<lambda>m2.
     bnd (subscript_key m2 ''humidity'') (\<lambda>humidity.
       Inr [dt, temp, weather, py_str X wind, py_str X humidity])))))))))))))"

fun insert_rows :: "ext \<Rightarrow> json list \<Rightarrow> unit act" where
  "insert_rows X [] s = (Inr (), s)"
| "insert_rows X (f # fs) s =
     (case table_row X f of
        Inl e \<Rightarrow> (Inl e, s)
      | Inr row \<Rightarrow> insert_rows X fs (s\<lparr>table_rows := table_rows s @ [row]\<rparr>))"

definition display_forecast_table :: "ext \<Rightarrow> json \<Rightarrow> unit act" where
  "display_forecast_table X data =
     seq (upd (\<lambda>s. s\<lparr>table_rows := []\<rparr>)) (\<lambda>_.
     seq (lift (bnd (subscript_key data ''list'') (\<lambda>l. bnd (slice_to 24 l) py_iter)))
       (insert_rows X))"

section \<open>The forecast fetcher and the orchestration\<close>

text \<open>The body of the \<open>try\<close> of \<open>get_forecast\<close>.\<close>

definition forecast_body :: "ext \<Rightarrow> string \<Rightarrow> json act" where
  "forecast_body X city =
     seq (request X FORECAST_URL (query_params X city)) (\<lambda>r.
       case r of (status_code, data) \<Rightarrow>
         if status_code = 200 then
           seq (display_forecast X data) (\<lambda>_.
           seq (display_forecast_table X data) (\<lambda>_.
             ret data))
         else
           seq (lift (dict_get data ''message'' (JStr ''Could not fetch forecast''))) (\<lambda>message.
           seq (show_dialog (ShowError ''API error'' (py_str X message))) (\<lambda>_.
             ret JNull)))"

definition get_forecast :: "ext \<Rightarrow> json act" where
  "get_forecast X s =
     (let city = strip (city_entry s) in
      if city = [] then seq (show_dialog input_warning) (\<lambda>_. ret JNull) s
      else
        (case forecast_body X city s of
           (Inl e, s1) \<Rightarrow>
             if is_request_exception e then
               seq (show_dialog (network_error X e)) (\<lambda>_. ret JNull) s1
             else (Inl e, s1)
         | (Inr data, s1) \<Rightarrow> (Inr data, s1)))"

definition display_ai_analysis :: "string \<Rightarrow> unit act" where
  "display_ai_analysis ai_txt = upd (\<lambda>s. s\<lparr>ai_text := ai_txt\<rparr>)"

text \<open>The call of \<open>analyze_weather_with_ai\<close>, entered in \<open>ai_calls\<close>.\<close>

definition run_analysis :: "ext \<Rightarrow> json \<Rightarrow> json \<Rightarrow> string act" where
  "run_analysis X weather_result forecast_result s =
     (case analyze_weather_with_ai X weather_result forecast_result of
        (r, tried) \<Rightarrow>
          (r, s\<lparr>ai_calls := ai_calls s @ [(weather_result, forecast_result)],
                models_called := models_called s @ tried\<rparr>))"

definition get_all_data :: "ext \<Rightarrow> unit act" where
  "get_all_data X s =
     (let city = strip (city_entry s) in
      if city = [] then show_dialog input_warning s
      else
        seq (get_weather X) (\<lambda>weather_result.
        seq (get_forecast X) (\<lambda>forecast_result.
          if truthy weather_result \<and> truthy forecast_result then
            seq (run_analysis X weather_result forecast_result) display_ai_analysis
          else ret ())) s)"

section \<open>Notions used in the statements\<close>

text \<open>The test of the representative's generator: \<open>"12:00:00" in x['dt_txt']\<close> holds.\<close>

definition at_noon :: "json \<Rightarrow> bool" where
  "at_noon f =
     (case subscript_key f ''dt_txt'' of
        Inr (JStr t) \<Rightarrow> contains ''12:00:00'' t
      | _ \<Rightarrow> False)"

text \<open>
  \<open>daily\<close> groups the entries \<open>seen\<close>: one key for each date met, in distinct keys, each
  with the entries of that date in the order of \<open>seen\<close>.
\<close>

definition grouped :: "json list \<Rightarrow> (string \<times> json list) list \<Rightarrow> bool" where
  "grouped seen daily \<longleftrightarrow>
     distinct (map fst daily) \<and>
     fst ` set daily = {d. \<exists>f\<in>set seen. entry_date f = Inr d} \<and>
     (\<forall>(d, fs)\<in>set daily. fs = filter (\<lambda>f. entry_date f = Inr d) seen)"

text \<open>The statements \<open>m\<close> leave the component \<open>g\<close> of the state as it was.\<close>

definition keeps :: "(ui \<Rightarrow> 'b) \<Rightarrow> 'a act \<Rightarrow> bool" where
  "keeps g m \<longleftrightarrow> (\<forall>s. g (snd (m s)) = g s)"

section \<open>Stubbed services and sample payloads\<close>

text \<open>
  The state the program starts in (its \<open>MAIN UI SETUP\<close>), with the text of the entry
  field as a parameter, and stubs for the outside world, on which the theorems below
  are run.
\<close>

definition initial_ui :: "string \<Rightarrow> ui" where
  "initial_ui city =
     \<lparr>city_entry = city, net_log = [], dialogs = [],
      lbl_city = ''City Name'', lbl_date = ''Date'', lbl_temp = ''--'' @ deg,
      lbl_desc = ''Condition'', lbl_stat_wind = ''--'', lbl_stat_humid = ''--'',
      lbl_stat_press = ''--'', lbl_stat_feels = ''--'', lbl_icon = None,
      map_position = None, map_markers = [], forecast_cards = [], table_rows = [],
      ai_text = [], ai_calls = [], models_called = []\<rparr>"

fun stub_exc :: "exn \<Rightarrow> string" where
  "stub_exc (RequestException m) = m"
| "stub_exc (LibraryError m) = m"
| "stub_exc KeyError = ''KeyError''"
| "stub_exc TypeError = ''TypeError''"
| "stub_exc AttributeError = ''AttributeError''"
| "stub_exc IndexError = ''IndexError''"
| "stub_exc ValueError = ''ValueError''"

fun stub_str :: "json \<Rightarrow> string" where
  "stub_str (JStr s) = s"
| "stub_str _ = ''#''"

definition stub_ext ::
  "(string \<Rightarrow> (string \<times> string) list \<Rightarrow> exn + (nat \<times> json)) \<Rightarrow> (string \<Rightarrow> exn + string)
     \<Rightarrow> (string \<Rightarrow> string \<Rightarrow> exn + string) \<Rightarrow> ext"
where
  "stub_ext net icon gen =
     \<lparr>api_key = None, http_get = net, icon_get = icon, generate = gen,
      str_exc = stub_exc, py_str = stub_str,
      fmt_1f = (\<lambda>v. Inr (stub_str v)), int_str = (\<lambda>v. Inr (stub_str v)),
      title = (\<lambda>s. s), fromtimestamp = (\<lambda>fmt v. Inr (stub_str v)),
      strptime_day = (\<lambda>d. Inr d), today = ''today'',
      set_position = (\<lambda>lat lon. None), set_marker = (\<lambda>lat lon name. None)\<rparr>"

definition no_icon :: "string \<Rightarrow> exn + string" where
  "no_icon icon_url = Inl (LibraryError ''cannot identify image file'')"


definition sample_entry :: "string \<Rightarrow> json" where
  "sample_entry dt_txt =
     JObj [(''dt'', JStr ''1714561200''), (''dt_txt'', JStr dt_txt),
           (''main'', JObj [(''temp'', JStr ''21''), (''feels_like'', JStr ''20''),
                            (''humidity'', JStr ''60'')]),
           (''weather'', JArr [JObj [(''description'', JStr ''clear sky''),
                                     (''icon'', JStr ''01d'')]]),
           (''wind'', JObj [(''speed'', JStr ''3'')])]"

definition sample_entries :: "json list" where
  "sample_entries =
     [sample_entry ''05-01 09:00:00'', sample_entry ''05-01 12:00:00'',
      sample_entry ''05-02 03:00:00'', sample_entry ''05-03 03:00:00'',
      sample_entry ''05-04 03:00:00'', sample_entry ''05-05 03:00:00'',
      sample_entry ''05-06 03:00:00'']"

definition sample_forecast :: json where
  "sample_forecast = JObj [(''cod'', JStr ''200''), (''list'', JArr sample_entries)]"

definition sample_weather :: json where
  "sample_weather =
     JObj [(''cod'', JInt 200), (''name'', JStr ''Bangalore''),
           (''main'', JObj [(''temp'', JStr ''24''), (''feels_like'', JStr ''25''),
                            (''humidity'', JStr ''70''), (''pressure'', JStr ''1012'')]),
           (''weather'', JArr [JObj [(''description'', JStr ''haze''), (''icon'', JStr ''50d'')]]),
           (''wind'', JObj [(''speed'', JStr ''2'')]),
           (''coord'', JObj [(''lat'', JInt 13), (''lon'', JInt 78)])]"

text \<open>A service that answers both endpoints with the sample payloads.\<close>

definition sample_net :: "string \<Rightarrow> (string \<times> string) list \<Rightarrow> exn + (nat \<times> json)" where
  "sample_net url params =
     (if url = BASE_URL then Inr (200, sample_weather) else Inr (200, sample_forecast))"

text \<open>
  A service that answers every request with HTTP status 200 and a payload whose own
  status is 401; and one that answers with HTTP status 404 and a message.
\<close>

definition refused_payload :: json where
  "refused_payload =
     JObj [(''cod'', JInt 401), (''message'', JStr ''Invalid API key''), (''list'', JArr [])]"

definition refused_net :: "string \<Rightarrow> (string \<times> string) list \<Rightarrow> exn + (nat \<times> json)" where
  "refused_net url params = Inr (200, refused_payload)"

definition missing_net :: "string \<Rightarrow> (string \<times> string) list \<Rightarrow> exn + (nat \<times> json)" where
  "missing_net url params =
     Inr (404, JObj [(''cod'', JStr ''404''), (''message'', JStr ''city not found'')])"

text \<open>Generative models: the first is out of quota; all are; none is.\<close>

definition second_answers :: "string \<Rightarrow> string \<Rightarrow> exn + string" where
  "second_answers model_name prompt =
     (if model_name = ''gemini-2.0-flash-lite'' then Inl (LibraryError ''429 quota'')
      else Inr (''Carry an umbrella. ('' @ model_name @ '')''))"

definition none_answers :: "string \<Rightarrow> string \<Rightarrow> exn + string" where
  "none_answers model_name prompt = Inl (LibraryError (''429 quota: '' @ model_name))"










section \<open>The advisory generator: fallback and failures\<close>

lemma bnd_simps [simp]: "bnd (Inl e) f = Inl e" "bnd (Inr x) f = f x"
  by (simp_all add: bnd_def)

lemma try_models_first_success:
  "k < length ms \<Longrightarrow> \<forall>i<k. \<exists>e. generate X (ms ! i) p = Inl e \<Longrightarrow>
   generate X (ms ! k) p = Inr txt \<Longrightarrow>
   \<exists>l. try_models X p ms last_error = (Some txt, l, take (Suc k) ms)"
proof (induction ms arbitrary: k last_error)
  case Nil
  then show ?case by simp
next
  case (Cons m ms)
  show ?case
  proof (cases k)
    case 0
    with Cons.prems show ?thesis by simp
  next
    case (Suc j)
    from Cons.prems Suc obtain e where e: "generate X m p = Inl e" by auto
    have "j < length ms" using Cons.prems Suc by simp
    moreover have "\<forall>i<j. \<exists>e. generate X (ms ! i) p = Inl e"
      using Cons.prems(2) Suc by auto
    moreover have "generate X (ms ! j) p = Inr txt" using Cons.prems(3) Suc by simp
    ultimately obtain l where "try_models X p ms (Some e) = (Some txt, l, take (Suc j) ms)"
      using Cons.IH by blast
    then show ?thesis using e Suc by simp
  qed
qed

lemma try_models_all_fail:
  "ms \<noteq> [] \<Longrightarrow> \<forall>m\<in>set ms. \<exists>e. generate X m p = Inl e \<Longrightarrow>
   generate X (last ms) p = Inl e' \<Longrightarrow>
   try_models X p ms last_error = (None, Some e', ms)"
proof (induction ms arbitrary: last_error)
  case Nil
  then show ?case by simp
next
  case (Cons m ms)
  from Cons.prems obtain e where e: "generate X m p = Inl e" by auto
  show ?case
  proof (cases "ms = []")
    case True
    with Cons.prems e show ?thesis by simp
  next
    case False
    then have "try_models X p ms (Some e) = (None, Some e', ms)"
      using Cons.IH Cons.prems by simp
    then show ?thesis using e by simp
  qed
qed

text \<open>
  Claim C3. The advisory generator tries the fallback models in order and stops at the
  first that answers: when the models before position \<open>k\<close> fail and the one at
  \<open>k\<close> answers, the result is that model's text and the models called are the first
  \<open>k + 1\<close> of the list. With \<open>k = 1\<close>: the first fails, the second answers, and no
  model after the second is called.
\<close>

theorem advisory_stops_at_first_success:
  assumes "build_prompt X weather_data forecast_data = Inr prompt"
    and "k < length models_to_try"
    and "\<forall>i<k. \<exists>e. generate X (models_to_try ! i) prompt = Inl e"
    and "generate X (models_to_try ! k) prompt = Inr txt"
  shows "analyze_weather_with_ai X weather_data forecast_data
           = (Inr txt, take (Suc k) models_to_try)"
proof -
  obtain l where "try_models X prompt models_to_try None = (Some txt, l, take (Suc k) models_to_try)"
    using try_models_first_success [OF assms(2,3,4)] by blast
  then show ?thesis
    using assms(1) by (simp add: analyze_weather_with_ai_def analyze_body_def)
qed

text \<open>
  Claim C4. When every model of the fallback list fails, the advisory generator returns
  the fixed unavailability text followed by the failure detail of the last model of the
  list, whatever the earlier failures were.
\<close>

theorem advisory_all_models_fail:
  assumes "build_prompt X weather_data forecast_data = Inr prompt"
    and "\<forall>m\<in>set models_to_try. \<exists>e. generate X m prompt = Inl e"
    and "generate X (last models_to_try) prompt = Inl e_last"
  shows "analyze_weather_with_ai X weather_data forecast_data
           = (Inr (unavailable @ str_exc X e_last), models_to_try)"
proof -
  have "models_to_try \<noteq> []" by (simp add: models_to_try_def)
  then have "try_models X prompt models_to_try None = (None, Some e_last, models_to_try)"
    using try_models_all_fail assms(2,3) by blast
  then show ?thesis
    using assms(1) by (simp add: analyze_weather_with_ai_def analyze_body_def str_last_def)
qed

text \<open>
  Claim C10. For all weather and forecast data, of any shape, \<open>analyze_weather_with_ai\<close>
  returns a string and raises nothing: an exception of its body is turned into the
  returned message.
\<close>

theorem advisory_never_raises:
  "(\<exists>txt. fst (analyze_weather_with_ai X weather_data forecast_data) = Inr txt) \<and>
   (\<forall>e tried. analyze_body X weather_data forecast_data = (Inl e, tried) \<longrightarrow>
      fst (analyze_weather_with_ai X weather_data forecast_data)
        = Inr (''AI Analysis unavailable: '' @ str_exc X e))"
  by (auto simp: analyze_weather_with_ai_def split: prod.splits sum.splits)

section \<open>The forecast aggregator: representatives and daily buckets\<close>

lemma entry_date_dt_txt:
  "entry_date f = Inr d \<Longrightarrow> \<exists>t. subscript_key f ''dt_txt'' = Inr (JStr t)"
  by (auto simp: entry_date_def bnd_def split: sum.splits json.splits)

lemma first_noon_find:
  "\<forall>f\<in>set xs. \<exists>t. subscript_key f ''dt_txt'' = Inr (JStr t) \<Longrightarrow>
   first_noon xs dflt = Inr (case find at_noon xs of Some x \<Rightarrow> x | None \<Rightarrow> dflt)"
proof (induction xs)
  case Nil
  then show ?case by simp
next
  case (Cons x xs)
  then obtain t where t: "subscript_key x ''dt_txt'' = Inr (JStr t)" by auto
  then have "at_noon x = contains ''12:00:00'' t" by (simp add: at_noon_def)
  with t Cons show ?case by simp
qed

lemma pick_mid_find:
  assumes "forecasts \<noteq> []"
    and "\<forall>f\<in>set forecasts. \<exists>t. subscript_key f ''dt_txt'' = Inr (JStr t)"
  shows "pick_mid forecasts
           = Inr (case find at_noon forecasts of
                    Some x \<Rightarrow> x | None \<Rightarrow> forecasts ! (length forecasts div 2))"
  using assms by (simp add: pick_mid_def first_noon_find)

lemma pick_mid_member:
  assumes "forecasts \<noteq> []"
    and "\<forall>f\<in>set forecasts. \<exists>t. subscript_key f ''dt_txt'' = Inr (JStr t)"
  shows "\<exists>mid. pick_mid forecasts = Inr mid \<and> mid \<in> set forecasts"
proof (cases "find at_noon forecasts")
  case None
  have "length forecasts div 2 < length forecasts" using assms(1) by simp
  then have "forecasts ! (length forecasts div 2) \<in> set forecasts" by (rule nth_mem)
  with None show ?thesis using pick_mid_find [OF assms] by simp
next
  case (Some x)
  then have "x \<in> set forecasts" by (auto simp: find_Some_iff)
  with Some show ?thesis using pick_mid_find [OF assms] by simp
qed

text \<open>
  Claim C2. For a non-empty bucket of entries with a timestamp text each, the
  representative exists; if some entry's timestamp text contains \<open>12:00:00\<close> it is
  such an entry (the first of them), and otherwise it is the entry at index
  \<open>len div 2\<close> of the bucket.
\<close>

theorem representative_noon_or_median:
  assumes "forecasts \<noteq> []"
    and "\<forall>f\<in>set forecasts. \<exists>t. subscript_key f ''dt_txt'' = Inr (JStr t)"
  shows "\<exists>mid. pick_mid forecasts = Inr mid \<and>
           ((\<exists>f\<in>set forecasts. at_noon f) \<longrightarrow>
              at_noon mid \<and> mid \<in> set forecasts \<and> find at_noon forecasts = Some mid) \<and>
           ((\<forall>f\<in>set forecasts. \<not> at_noon f) \<longrightarrow>
              mid = forecasts ! (length forecasts div 2))"
proof (cases "find at_noon forecasts")
  case None
  then have "\<forall>f\<in>set forecasts. \<not> at_noon f" by (simp add: find_None_iff)
  with None show ?thesis using pick_mid_find [OF assms] by simp
next
  case (Some x)
  then have "at_noon x" and "x \<in> set forecasts" by (auto simp: find_Some_iff)
  with Some show ?thesis using pick_mid_find [OF assms] by auto
qed


lemma group_add_keys: "fst ` set (group_add d f daily) = insert d (fst ` set daily)"
  by (induction d f daily rule: group_add.induct) auto

lemma group_add_distinct: "distinct (map fst daily) \<Longrightarrow> distinct (map fst (group_add d f daily))"
  by (induction d f daily rule: group_add.induct) (auto simp: group_add_keys)

lemma group_add_member:
  "(k, fs) \<in> set (group_add d f daily) \<Longrightarrow> distinct (map fst daily) \<Longrightarrow>
   (k \<noteq> d \<and> (k, fs) \<in> set daily) \<or>
   (k = d \<and> ((\<exists>fs0. (d, fs0) \<in> set daily \<and> fs = fs0 @ [f]) \<or> (d \<notin> fst ` set daily \<and> fs = [f])))"
proof (induction d f daily rule: group_add.induct)
  case (1 d f)
  then show ?case by simp
next
  case (2 d f k' fs' rest)
  show ?case
  proof (cases "k' = d")
    case True
    with "2.prems" show ?thesis by (auto simp: image_iff)
  next
    case False
    with "2.prems" have "(k, fs) = (k', fs') \<or> (k, fs) \<in> set (group_add d f rest)" by simp
    then show ?thesis
    proof
      assume "(k, fs) = (k', fs')"
      with False show ?thesis by auto
    next
      assume m: "(k, fs) \<in> set (group_add d f rest)"
      have "distinct (map fst rest)" using "2.prems"(2) by simp
      from "2.IH" [OF False m this] False show ?thesis by auto
    qed
  qed
qed

lemma grouped_step:
  assumes "grouped seen daily" and "entry_date f = Inr d"
  shows "grouped (seen @ [f]) (group_add d f daily)"
  unfolding grouped_def
proof (intro conjI ballI)
  show "distinct (map fst (group_add d f daily))"
    using assms(1) by (simp add: grouped_def group_add_distinct)
  have "fst ` set daily = {d. \<exists>f\<in>set seen. entry_date f = Inr d}"
    using assms(1) by (simp add: grouped_def)
  then show "fst ` set (group_add d f daily) = {d'. \<exists>f'\<in>set (seen @ [f]). entry_date f' = Inr d'}"
    using assms(2) by (auto simp: group_add_keys)
next
  fix x assume x: "x \<in> set (group_add d f daily)"
  obtain k fs where kf: "x = (k, fs)" by (cases x)
  have dist: "distinct (map fst daily)" using assms(1) by (simp add: grouped_def)
  have old: "\<And>k' fs'. (k', fs') \<in> set daily \<Longrightarrow> fs' = filter (\<lambda>f. entry_date f = Inr k') seen"
    using assms(1) by (auto simp: grouped_def)
  have keys: "fst ` set daily = {d. \<exists>f\<in>set seen. entry_date f = Inr d}"
    using assms(1) by (simp add: grouped_def)
  from group_add_member [OF x [unfolded kf] dist]
  have "fs = filter (\<lambda>f'. entry_date f' = Inr k) (seen @ [f])"
  proof (elim disjE conjE exE)
    assume "k \<noteq> d" "(k, fs) \<in> set daily"
    then show ?thesis using old assms(2) by auto
  next
    fix fs0 assume "k = d" "(d, fs0) \<in> set daily" "fs = fs0 @ [f]"
    then show ?thesis using old assms(2) by auto
  next
    assume "k = d" "d \<notin> fst ` set daily" "fs = [f]"
    moreover have "filter (\<lambda>f'. entry_date f' = Inr d) seen = []"
      using \<open>d \<notin> fst ` set daily\<close> keys by (auto simp: filter_empty_conv)
    ultimately show ?thesis using assms(2) by simp
  qed
  then show "case x of (d, fs) \<Rightarrow> fs = filter (\<lambda>f. entry_date f = Inr d) (seen @ [f])"
    using kf by simp
qed

lemma daily_groups_grouped:
  "\<forall>f\<in>set fs. \<exists>d. entry_date f = Inr d \<Longrightarrow> grouped seen daily \<Longrightarrow>
   \<exists>res. daily_groups fs daily = Inr res \<and> grouped (seen @ fs) res"
proof (induction fs arbitrary: seen daily)
  case Nil
  then show ?case by simp
next
  case (Cons f fs)
  then obtain d where d: "entry_date f = Inr d" by auto
  have "grouped (seen @ [f]) (group_add d f daily)"
    using grouped_step [OF Cons.prems(2) d] .
  moreover have "\<forall>f\<in>set fs. \<exists>d. entry_date f = Inr d" using Cons.prems(1) by simp
  ultimately obtain res where
    "daily_groups fs (group_add d f daily) = Inr res" "grouped ((seen @ [f]) @ fs) res"
    using Cons.IH by blast
  then show ?case using d by simp
qed

lemma grouped_length:
  assumes "grouped entries daily" and "\<forall>f\<in>set entries. \<exists>d. entry_date f = Inr d"
  shows "length daily = length (remdups (map entry_date entries))"
proof -
  have "distinct (map fst daily)" using assms(1) by (simp add: grouped_def)
  then have "card (set (map fst daily)) = length (map fst daily)" by (rule distinct_card)
  then have "length daily = card (fst ` set daily)" by simp
  also have "fst ` set daily = {d. \<exists>f\<in>set entries. entry_date f = Inr d}"
    using assms(1) by (simp add: grouped_def)
  also have "card \<dots> = card (Inr ` {d. \<exists>f\<in>set entries. entry_date f = Inr d} :: (exn + string) set)"
    by (simp add: card_image)
  also have "(Inr ` {d. \<exists>f\<in>set entries. entry_date f = Inr d} :: (exn + string) set) = set (map entry_date entries)"
    using assms(2) by (auto simp: image_iff) (metis+)?
  also have "card \<dots> = length (remdups (map entry_date entries))"
    by (simp add: length_remdups_card_conv del: set_map)
  finally show ?thesis .
qed

text \<open>
  Claim C1. When the entries of a forecast response carry a date each and span at least
  five distinct dates, the grouping of \<open>display_forecast\<close> yields exactly five daily
  buckets, under pairwise distinct dates; each bucket holds the entries of its date, in
  the order of the response, and its representative is one of them.
\<close>

theorem five_daily_buckets:
  assumes "subscript_key data ''list'' = Inr (JArr entries)"
    and "\<forall>f\<in>set entries. \<exists>d. entry_date f = Inr d"
    and "5 \<le> length (remdups (map entry_date entries))"
  shows "\<exists>days. forecast_buckets data = Inr days \<and> length days = 5 \<and>
           distinct (map fst days) \<and>
           (\<forall>(d, fs)\<in>set days.
              fs = filter (\<lambda>f. entry_date f = Inr d) entries \<and>
              (\<exists>mid. pick_mid fs = Inr mid \<and> mid \<in> set fs))"
proof -
  have "grouped [] []" by (simp add: grouped_def)
  then obtain daily where daily: "daily_groups entries [] = Inr daily" and g: "grouped entries daily"
    using daily_groups_grouped [OF assms(2), of "[]" "[]"] by auto
  have len: "5 \<le> length daily" using grouped_length [OF g assms(2)] assms(3) by simp
  have fb: "forecast_buckets data = Inr (take 5 daily)"
    using assms(1) daily by (simp add: forecast_buckets_def)
  have "distinct (map fst (take 5 daily))"
    using g by (simp add: grouped_def take_map [symmetric] distinct_take)
  moreover have "\<forall>(d, fs)\<in>set (take 5 daily).
              fs = filter (\<lambda>f. entry_date f = Inr d) entries \<and>
              (\<exists>mid. pick_mid fs = Inr mid \<and> mid \<in> set fs)"
  proof (intro ballI)
    fix x assume "x \<in> set (take 5 daily)"
    then have x: "x \<in> set daily" by (rule in_set_takeD)
    obtain d fs where df: "x = (d, fs)" by (cases x)
    have fs: "fs = filter (\<lambda>f. entry_date f = Inr d) entries"
      using g x df by (auto simp: grouped_def)
    have "d \<in> fst ` set daily" using x df by force
    then have "\<exists>f\<in>set entries. entry_date f = Inr d" using g by (simp add: grouped_def)
    then have ne: "fs \<noteq> []" using fs by (auto simp: filter_empty_conv)
    have "\<forall>f\<in>set fs. \<exists>t. subscript_key f ''dt_txt'' = Inr (JStr t)"
      using fs entry_date_dt_txt by auto
    from pick_mid_member [OF ne this] fs df
    show "case x of (d, fs) \<Rightarrow> fs = filter (\<lambda>f. entry_date f = Inr d) entries \<and>
              (\<exists>mid. pick_mid fs = Inr mid \<and> mid \<in> set fs)" by simp
  qed
  ultimately show ?thesis using fb len by simp
qed

section \<open>Empty input and the hourly table\<close>

lemma seq_lift_Inr [simp]: "seq (lift (Inr x)) f s = f x s"
  by (simp add: seq_def lift_def)

lemma seq_lift_Inl [simp]: "seq (lift (Inl e)) f s = (Inl e, s)"
  by (simp add: seq_def lift_def)

lemma seq_ret [simp]: "seq (ret x) f s = f x s"
  by (simp add: seq_def ret_def)

lemma seq_upd [simp]: "seq (upd g) f s = f () (g s)"
  by (simp add: seq_def upd_def)

lemma seq_Inr_elim:
  assumes "seq m f s = (Inr y, s')"
  obtains x s1 where "m s = (Inr x, s1)" and "f x s1 = (Inr y, s')"
  using assms by (auto simp: seq_def split: prod.splits sum.splits)

lemma lift_Inr_elim:
  assumes "lift m s = (Inr x, s1)"
  shows "m = Inr x \<and> s1 = s"
  using assms by (simp add: lift_def)

lemma empty_city_runs:
  assumes "strip (city_entry s) = []"
  shows "get_weather X s = (Inr JNull, s\<lparr>dialogs := dialogs s @ [input_warning]\<rparr>)"
    and "get_forecast X s = (Inr JNull, s\<lparr>dialogs := dialogs s @ [input_warning]\<rparr>)"
    and "get_all_data X s = (Inr (), s\<lparr>dialogs := dialogs s @ [input_warning]\<rparr>)"
  using assms
  by (simp_all add: get_weather_def get_forecast_def get_all_data_def show_dialog_def
        ret_def upd_def)

text \<open>
  Claim C5. When the city name is empty (after stripping), each of \<open>get_weather\<close>,
  \<open>get_forecast\<close> and \<open>get_all_data\<close> only shows the input warning: no request is
  sent and nothing is fetched.
\<close>

theorem empty_city_no_fetch:
  assumes "strip (city_entry s) = []"
  shows "get_weather X s = (Inr JNull, s\<lparr>dialogs := dialogs s @ [input_warning]\<rparr>) \<and>
         get_forecast X s = (Inr JNull, s\<lparr>dialogs := dialogs s @ [input_warning]\<rparr>) \<and>
         get_all_data X s = (Inr (), s\<lparr>dialogs := dialogs s @ [input_warning]\<rparr>) \<and>
         net_log (snd (get_weather X s)) = net_log s \<and>
         net_log (snd (get_forecast X s)) = net_log s \<and>
         net_log (snd (get_all_data X s)) = net_log s"
proof -
  note runs = empty_city_runs [OF assms, of X]
  have "net_log (s\<lparr>dialogs := dialogs s @ [input_warning]\<rparr>) = net_log s" by simp
  with runs show ?thesis by simp
qed


lemma insert_rows_spec:
  "insert_rows X fs s = (r, s') \<Longrightarrow>
   \<exists>rows. table_rows s' = table_rows s @ rows \<and> length rows \<le> length fs \<and>
     (\<forall>i<length rows. table_row X (fs ! i) = Inr (rows ! i)) \<and>
     (r = Inr () \<longrightarrow> length rows = length fs) \<and>
     ((\<forall>f\<in>set fs. \<exists>row. table_row X f = Inr row) \<longrightarrow> r = Inr ())"
proof (induction fs arbitrary: s)
  case Nil
  then show ?case by simp
next
  case (Cons f fs)
  show ?case
  proof (cases "table_row X f")
    case (Inl e)
    with Cons.prems show ?thesis by auto
  next
    case (Inr row)
    with Cons.prems have "insert_rows X fs (s\<lparr>table_rows := table_rows s @ [row]\<rparr>) = (r, s')"
      by simp
    from Cons.IH [OF this] obtain rows where
      rows: "table_rows s' = (table_rows s @ [row]) @ rows" "length rows \<le> length fs"
        "\<forall>i<length rows. table_row X (fs ! i) = Inr (rows ! i)"
        "r = Inr () \<longrightarrow> length rows = length fs"
        "(\<forall>f\<in>set fs. \<exists>row. table_row X f = Inr row) \<longrightarrow> r = Inr ()"
      by auto
    have "\<forall>i<length (row # rows). table_row X ((f # fs) ! i) = Inr ((row # rows) ! i)"
      using rows(3) Inr by (auto simp: nth_Cons split: nat.splits)
    with rows show ?thesis
      by (intro exI [of _ "row # rows"]) auto
  qed
qed

text \<open>
  Claim C7. The hourly table is drawn from the first 24 entries of the forecast list in
  their order: row \<open>i\<close> of the table is the row of entry \<open>i\<close>, the table has
  \<open>min 24 (length entries)\<close> rows when the function returns, and it returns when each
  of these entries has a row.
\<close>

theorem hourly_table_first_24:
  assumes "subscript_key data ''list'' = Inr (JArr entries)"
    and "display_forecast_table X data s = (r, s')"
  shows "length (table_rows s') \<le> min 24 (length entries) \<and>
         (\<forall>i<length (table_rows s'). table_row X (entries ! i) = Inr (table_rows s' ! i)) \<and>
         (r = Inr () \<longrightarrow> length (table_rows s') = min 24 (length entries)) \<and>
         ((\<forall>f\<in>set (take 24 entries). \<exists>row. table_row X f = Inr row) \<longrightarrow> r = Inr ())"
proof -
  have "insert_rows X (take 24 entries) (s\<lparr>table_rows := []\<rparr>) = (r, s')"
    using assms by (simp add: display_forecast_table_def)
  from insert_rows_spec [OF this] obtain rows where
    rows: "table_rows s' = rows" "length rows \<le> length (take 24 entries)"
      "\<forall>i<length rows. table_row X (take 24 entries ! i) = Inr (rows ! i)"
      "r = Inr () \<longrightarrow> length rows = length (take 24 entries)"
      "(\<forall>f\<in>set (take 24 entries). \<exists>row. table_row X f = Inr row) \<longrightarrow> r = Inr ()"
    by auto
  have "\<forall>i<length rows. table_row X (entries ! i) = Inr (rows ! i)"
  proof (intro allI impI)
    fix i assume i: "i < length rows"
    then have "i < 24" using rows(2) by simp
    then have "take 24 entries ! i = entries ! i" by simp
    with rows(3) i show "table_row X (entries ! i) = Inr (rows ! i)" by auto
  qed
  moreover have "length (take 24 entries) = min 24 (length entries)" by simp
  ultimately show ?thesis using rows(1,2,4,5) by simp
qed

section \<open>What the fetchers leave unchanged and what they return\<close>

lemma keepsD: "keeps g m \<Longrightarrow> g (snd (m s)) = g s"
  by (simp add: keeps_def)

lemma keeps_ret: "keeps g (ret x)"
  by (simp add: keeps_def ret_def)

lemma keeps_lift: "keeps g (lift m)"
  by (simp add: keeps_def lift_def)

lemma keeps_upd: "(\<And>s. g (h s) = g s) \<Longrightarrow> keeps g (upd h)"
  by (simp add: keeps_def upd_def)

lemma keeps_seq:
  assumes "keeps g m" and "\<And>x. keeps g (f x)"
  shows "keeps g (seq m f)"
  unfolding keeps_def
proof
  fix s
  show "g (snd (seq m f s)) = g s"
  proof (cases "m s")
    case (Pair r s1)
    have s1: "g s1 = g s" using keepsD [OF assms(1), of s] Pair by simp
    show ?thesis
    proof (cases r)
      case (Inl e)
      with Pair s1 show ?thesis by (simp add: seq_def)
    next
      case (Inr x)
      with Pair s1 keepsD [OF assms(2), of x s1] show ?thesis by (simp add: seq_def)
    qed
  qed
qed

lemma keeps_if: "keeps g a \<Longrightarrow> keeps g b \<Longrightarrow> keeps g (if c then a else b)"
  by simp

lemma keeps_case_prod: "(\<And>a b. keeps g (f a b)) \<Longrightarrow> keeps g (case p of (a, b) \<Rightarrow> f a b)"
  by (cases p) simp

lemmas keeps_intros = keeps_ret keeps_lift keeps_upd keeps_seq keeps_if keeps_case_prod

lemma keeps_ai_show_dialog: "keeps ai_calls (show_dialog d)"
  by (simp add: show_dialog_def keeps_upd)

lemma keeps_ai_request: "keeps ai_calls (request X url params)"
  by (simp add: keeps_def request_def)

lemma keeps_ai_update_map: "keeps ai_calls (update_map X coord name)"
proof -
  have "keeps ai_calls (map_set_position X lat lon)" for lat lon
    by (simp add: keeps_def map_set_position_def split: option.splits)
  moreover have "keeps ai_calls (map_set_marker X lat lon name)" for lat lon
    by (simp add: keeps_def map_set_marker_def split: option.splits)
  ultimately show ?thesis
    unfolding update_map_def by (intro keeps_intros) simp_all
qed

lemma keeps_ai_show_icon: "keeps ai_calls (show_icon X icon_code)"
  by (simp add: keeps_def show_icon_def Let_def split: sum.splits)

lemma keeps_ai_show_current: "keeps ai_calls (show_current X city data)"
  unfolding show_current_def
  by (intro keeps_intros keeps_ai_update_map) simp_all

lemma keeps_ai_get_weather: "keeps ai_calls (get_weather X)"
  unfolding keeps_def
proof
  fix s
  show "ai_calls (snd (get_weather X s)) = ai_calls s"
  proof (cases "strip (city_entry s) = []")
    case True
    then show ?thesis using empty_city_runs [of s X] by simp
  next
    case False
    let ?s1 = "s\<lparr>net_log := net_log s @ [(BASE_URL, query_params X (strip (city_entry s)))]\<rparr>"
    show ?thesis
    proof (cases "http_get X BASE_URL (query_params X (strip (city_entry s)))")
      case (Inl e)
      with False show ?thesis
        by (simp add: get_weather_def request_def show_dialog_def ret_def upd_def Let_def)
    next
      case (Inr p)
      obtain status data where p: "p = (status, data)" by (cases p)
      have "keeps ai_calls (weather_reply X (strip (city_entry s)) data)"
        unfolding weather_reply_def
        by (intro keeps_intros keeps_ai_show_dialog keeps_ai_show_current keeps_ai_show_icon)
      from keepsD [OF this, of ?s1] False Inr p show ?thesis
        by (simp add: get_weather_def request_def Let_def)
    qed
  qed
qed

lemma keeps_ai_render_day: "keeps ai_calls (render_day X date forecasts)"
proof -
  have "keeps ai_calls (day_icon X icon)" for icon
    by (simp add: keeps_def day_icon_def Let_def)
  moreover have "keeps ai_calls (\<lambda>s.
       case int_str X temp of
         Inl e \<Rightarrow>
           (Inl e, add_card \<lparr>card_date = date, card_mid = mid, card_day = day_name,
                             card_icon = photo, card_temp = None\<rparr> s)
       | Inr t \<Rightarrow>
           (Inr (), add_card \<lparr>card_date = date, card_mid = mid, card_day = day_name,
                              card_icon = photo, card_temp = Some (t @ deg)\<rparr> s))"
    for temp mid day_name photo
    by (simp add: keeps_def add_card_def split: sum.splits)
  ultimately show ?thesis
    unfolding render_day_def by (intro keeps_intros)
qed

lemma ai_render_days: "ai_calls (snd (render_days X days s)) = ai_calls s"
proof (induction days arbitrary: s)
  case Nil
  then show ?case by simp
next
  case (Cons p days)
  obtain date forecasts where p: "p = (date, forecasts)" by (cases p)
  show ?case
  proof (cases "render_day X date forecasts s")
    case (Pair r s1)
    have "ai_calls s1 = ai_calls s"
      using keepsD [OF keeps_ai_render_day, of X date forecasts s] Pair by simp
    with Pair p Cons.IH [of s1] show ?thesis by (cases r) simp_all
  qed
qed

lemma keeps_ai_display_forecast: "keeps ai_calls (display_forecast X data)"
proof -
  have "keeps ai_calls (render_days X days)" for days
    by (simp add: keeps_def ai_render_days)
  then show ?thesis
    unfolding display_forecast_def by (intro keeps_intros) simp_all
qed

lemma ai_insert_rows: "ai_calls (snd (insert_rows X fs s)) = ai_calls s"
  by (induction fs arbitrary: s) (simp_all split: sum.splits)

lemma keeps_ai_display_forecast_table: "keeps ai_calls (display_forecast_table X data)"
proof -
  have "keeps ai_calls (insert_rows X fs)" for fs
    by (simp add: keeps_def ai_insert_rows)
  then show ?thesis
    unfolding display_forecast_table_def by (intro keeps_intros) simp_all
qed

lemma keeps_ai_forecast_body: "keeps ai_calls (forecast_body X city)"
  unfolding forecast_body_def
  by (intro keeps_intros keeps_ai_request keeps_ai_display_forecast
        keeps_ai_display_forecast_table keeps_ai_show_dialog)

lemma keeps_ai_get_forecast: "keeps ai_calls (get_forecast X)"
  unfolding keeps_def
proof
  fix s
  show "ai_calls (snd (get_forecast X s)) = ai_calls s"
  proof (cases "strip (city_entry s) = []")
    case True
    then show ?thesis using empty_city_runs [of s X] by simp
  next
    case False
    obtain r s1 where b: "forecast_body X (strip (city_entry s)) s = (r, s1)"
      by (cases "forecast_body X (strip (city_entry s)) s")
    have "ai_calls s1 = ai_calls s"
      using keepsD [OF keeps_ai_forecast_body, of X "strip (city_entry s)" s] b by simp
    with False b show ?thesis
      by (cases r) (simp_all add: get_forecast_def show_dialog_def ret_def upd_def Let_def)
  qed
qed


lemma ne_200_cases: "\<not> ne_200 cod \<Longrightarrow> cod \<noteq> JNull"
  by (cases cod) simp_all

lemma dict_get_found:
  "dict_get data k JNull = Inr v \<Longrightarrow> v \<noteq> JNull \<Longrightarrow> truthy data"
  by (cases data) (auto split: option.splits)

lemma subscript_key_found: "subscript_key data k = Inr v \<Longrightarrow> truthy data"
  by (cases data) (auto split: option.splits)

lemma get_weather_payload:
  assumes "get_weather X s = (Inr w, s')" and "w \<noteq> JNull"
  shows "truthy w \<and>
         (\<exists>status. http_get X BASE_URL (query_params X (strip (city_entry s))) = Inr (status, w))"
proof (cases "strip (city_entry s) = []")
  case True
  then show ?thesis using empty_city_runs [of s X] assms by simp
next
  case False
  show ?thesis
  proof (cases "http_get X BASE_URL (query_params X (strip (city_entry s)))")
    case (Inl e)
    with False assms show ?thesis
      by (simp add: get_weather_def request_def show_dialog_def ret_def upd_def Let_def
            split: if_splits)
  next
    case (Inr p)
    obtain status data where p: "p = (status, data)" by (cases p)
    let ?s1 = "s\<lparr>net_log := net_log s @ [(BASE_URL, query_params X (strip (city_entry s)))]\<rparr>"
    have run: "weather_reply X (strip (city_entry s)) data ?s1 = (Inr w, s')"
      using assms(1) False Inr p by (simp add: get_weather_def request_def Let_def)
    from run [unfolded weather_reply_def] obtain cod s2 where cod: "lift (dict_get data ''cod'' JNull) ?s1 = (Inr cod, s2)"
      and rest: "(if ne_200 cod then
                 seq (lift (dict_get data ''message'' (JStr ''Unknown error''))) (\<lambda>message.
                 seq (show_dialog (ShowError ''API error''
                        (''Error from API:'' @ nl @ py_str X message))) (\<lambda>_.
                   ret JNull))
               else
                 seq (show_current X (strip (city_entry s)) data) (\<lambda>icon_code.
                 seq (show_icon X icon_code) (\<lambda>_.
                   ret data))) s2 = (Inr w, s')"
      by (rule seq_Inr_elim)
    have ok: "\<not> ne_200 cod"
    proof
      assume "ne_200 cod"
      with rest have "seq (lift (dict_get data ''message'' (JStr ''Unknown error''))) (\<lambda>message.
                 seq (show_dialog (ShowError ''API error''
                        (''Error from API:'' @ nl @ py_str X message))) (\<lambda>_.
                   ret JNull)) s2 = (Inr w, s')" by simp
      then have "w = JNull"
        by (cases "dict_get data ''message'' (JStr ''Unknown error'')")
           (simp_all add: show_dialog_def ret_def)
      with assms(2) show False by simp
    qed
    with rest have "seq (show_current X (strip (city_entry s)) data) (\<lambda>icon_code.
                 seq (show_icon X icon_code) (\<lambda>_. ret data)) s2 = (Inr w, s')" by simp
    then obtain ic s3 where "seq (show_icon X ic) (\<lambda>_. ret data) s3 = (Inr w, s')"
      by (rule seq_Inr_elim)
    then obtain u s4 where "ret data s4 = (Inr w, s')" by (rule seq_Inr_elim)
    then have w: "w = data" by (simp add: ret_def)
    have "dict_get data ''cod'' JNull = Inr cod" using cod by (simp add: lift_def)
    then have "truthy data" using ne_200_cases [OF ok] by (rule dict_get_found)
    with w Inr p show ?thesis by simp
  qed
qed

lemma render_days_fst: "forecast_buckets data = Inr days \<Longrightarrow> truthy data"
  by (auto simp: forecast_buckets_def bnd_def split: sum.splits dest: subscript_key_found)

lemma forecast_body_payload:
  assumes "forecast_body X city s = (Inr f, s')" and "f \<noteq> JNull"
  shows "truthy f \<and> http_get X FORECAST_URL (query_params X city) = Inr (200, f)"
proof -
  from assms(1) obtain p s1 where
    req: "request X FORECAST_URL (query_params X city) s = (Inr p, s1)" and
    rest: "(case p of (status_code, data) \<Rightarrow>
         if status_code = 200 then
           seq (display_forecast X data) (\<lambda>_.
           seq (display_forecast_table X data) (\<lambda>_.
             ret data))
         else
           seq (lift (dict_get data ''message'' (JStr ''Could not fetch forecast''))) (\<lambda>message.
           seq (show_dialog (ShowError ''API error'' (py_str X message))) (\<lambda>_.
             ret JNull))) s1 = (Inr f, s')"
    unfolding forecast_body_def by (rule seq_Inr_elim)
  obtain status data where p: "p = (status, data)" by (cases p)
  have st: "status = 200"
  proof (rule ccontr)
    assume "status \<noteq> 200"
    with rest p have "seq (lift (dict_get data ''message'' (JStr ''Could not fetch forecast''))) (\<lambda>message.
           seq (show_dialog (ShowError ''API error'' (py_str X message))) (\<lambda>_.
             ret JNull)) s1 = (Inr f, s')" by simp
    then have "f = JNull"
      by (cases "dict_get data ''message'' (JStr ''Could not fetch forecast'')")
         (simp_all add: show_dialog_def ret_def)
    with assms(2) show False by simp
  qed
  with rest p have "seq (display_forecast X data) (\<lambda>_.
           seq (display_forecast_table X data) (\<lambda>_. ret data)) s1 = (Inr f, s')" by simp
  then obtain u s2 where df: "display_forecast X data s1 = (Inr u, s2)"
    and "seq (display_forecast_table X data) (\<lambda>_. ret data) s2 = (Inr f, s')"
    by (rule seq_Inr_elim)
  then obtain u' s3 where "ret data s3 = (Inr f, s')" by (elim seq_Inr_elim)
  then have f: "f = data" by (simp add: ret_def)
  from df obtain days where "forecast_buckets data = Inr days"
    unfolding display_forecast_def
    by (cases "forecast_buckets data") (simp_all)
  then have "truthy data" by (rule render_days_fst)
  moreover have "http_get X FORECAST_URL (query_params X city) = Inr (status, data)"
    using req p by (simp add: request_def)
  ultimately show ?thesis using f st by simp
qed

lemma get_forecast_payload:
  assumes "get_forecast X s = (Inr f, s')" and "f \<noteq> JNull"
  shows "truthy f \<and>
         http_get X FORECAST_URL (query_params X (strip (city_entry s))) = Inr (200, f)"
proof (cases "strip (city_entry s) = []")
  case True
  then show ?thesis using empty_city_runs [of s X] assms by simp
next
  case False
  obtain r s1 where b: "forecast_body X (strip (city_entry s)) s = (r, s1)"
    by (cases "forecast_body X (strip (city_entry s)) s")
  show ?thesis
  proof (cases r)
    case (Inl e)
    with False b assms show ?thesis
      by (simp add: get_forecast_def show_dialog_def ret_def upd_def Let_def split: if_splits)
  next
    case (Inr d)
    with False b assms have "forecast_body X (strip (city_entry s)) s = (Inr f, s')"
      by (simp add: get_forecast_def Let_def)
    from forecast_body_payload [OF this assms(2)] show ?thesis .
  qed
qed

section \<open>Orchestration, icons and the forecast fetcher\<close>

lemma ai_run_analysis:
  "ai_calls (snd (seq (run_analysis X w f) display_ai_analysis s)) = ai_calls s @ [(w, f)]"
  by (simp add: seq_def run_analysis_def display_ai_analysis_def upd_def
        split: prod.splits sum.splits)

lemma get_all_data_calls:
  "ai_calls (snd (get_all_data X s)) =
     (case get_weather X s of
        (Inr w, s1) \<Rightarrow>
          (case get_forecast X s1 of
             (Inr f, s2) \<Rightarrow>
               if w \<noteq> JNull \<and> f \<noteq> JNull then ai_calls s @ [(w, f)] else ai_calls s
           | (Inl e, s2) \<Rightarrow> ai_calls s)
      | (Inl e, s1) \<Rightarrow> ai_calls s)"
proof (cases "strip (city_entry s) = []")
  case True
  then have "get_weather X s = (Inr JNull, s\<lparr>dialogs := dialogs s @ [input_warning]\<rparr>)"
    and "ai_calls (snd (get_all_data X s)) = ai_calls s"
    using empty_city_runs [of s X] by simp_all
  then show ?thesis by (simp split: prod.splits sum.splits)
next
  case False
  obtain rw s1 where gw: "get_weather X s = (rw, s1)" by (cases "get_weather X s")
  have s1: "ai_calls s1 = ai_calls s"
    using keepsD [OF keeps_ai_get_weather, of X s] gw by simp
  show ?thesis
  proof (cases rw)
    case (Inl e)
    with False gw s1 show ?thesis by (simp add: get_all_data_def seq_def)
  next
    case (Inr w)
    obtain rf s2 where gf: "get_forecast X s1 = (rf, s2)" by (cases "get_forecast X s1")
    have s2: "ai_calls s2 = ai_calls s"
      using keepsD [OF keeps_ai_get_forecast, of X s1] gf s1 by simp
    show ?thesis
    proof (cases rf)
      case (Inl e)
      with False gw gf Inr s2 show ?thesis by (simp add: get_all_data_def seq_def)
    next
      case f: (Inr f)
      have tw: "truthy w \<longleftrightarrow> w \<noteq> JNull"
        using get_weather_payload [of X s w s1] gw Inr by auto
      have tf: "truthy f \<longleftrightarrow> f \<noteq> JNull"
        using get_forecast_payload [of X s1 f s2] gf f by auto
      have "get_all_data X s =
              (if truthy w \<and> truthy f then seq (run_analysis X w f) display_ai_analysis
               else ret ()) s2"
        using False gw gf Inr f by (simp add: get_all_data_def seq_def)
      then show ?thesis
        using gw gf Inr f s2 tw tf by (simp add: ai_run_analysis ret_def)
    qed
  qed
qed

text \<open>
  Claim C8. In every run of \<open>get_all_data\<close>, \<open>analyze_weather_with_ai\<close> is called if and
  only if \<open>get_weather\<close> and then \<open>get_forecast\<close> both returned data (not \<open>None\<close>);
  it is then called once, on these two results.
\<close>

theorem advisory_iff_both_fetches:
  "(ai_calls (snd (get_all_data X s)) \<noteq> ai_calls s \<longleftrightarrow>
      (\<exists>w s1 f s2. get_weather X s = (Inr w, s1) \<and> w \<noteq> JNull \<and>
                    get_forecast X s1 = (Inr f, s2) \<and> f \<noteq> JNull)) \<and>
   (\<forall>w s1 f s2. get_weather X s = (Inr w, s1) \<and> w \<noteq> JNull \<and>
                 get_forecast X s1 = (Inr f, s2) \<and> f \<noteq> JNull \<longrightarrow>
                 ai_calls (snd (get_all_data X s)) = ai_calls s @ [(w, f)])"
  unfolding get_all_data_calls
  by (auto split: prod.splits sum.splits)













text \<open>
  Claim C6, as amended. The forecast fetcher decides by the HTTP status code of the
  response, not by the status field of the payload: with a status other than 200 and a
  JSON object as payload it shows an API error with the payload's message (or
  \<open>Could not fetch forecast\<close>) and returns \<open>None\<close>; it returns data only when the
  HTTP status code is 200, and the data is then the decoded payload.
\<close>

theorem forecast_fetch_by_http_status:
  "(strip (city_entry s) \<noteq> [] \<and>
    http_get X FORECAST_URL (query_params X (strip (city_entry s))) = Inr (status, JObj kvs) \<and>
    status \<noteq> 200 \<longrightarrow>
      get_forecast X s =
        (Inr JNull,
         s\<lparr>net_log := net_log s @ [(FORECAST_URL, query_params X (strip (city_entry s)))],
           dialogs := dialogs s @
             [ShowError ''API error''
                (py_str X (case map_of kvs ''message'' of
                             None \<Rightarrow> JStr ''Could not fetch forecast'' | Some m \<Rightarrow> m))]\<rparr>)) \<and>
   (\<forall>data s'. get_forecast X s = (Inr data, s') \<and> data \<noteq> JNull \<longrightarrow>
      http_get X FORECAST_URL (query_params X (strip (city_entry s))) = Inr (200, data))"
proof (intro conjI impI allI)
  assume "strip (city_entry s) \<noteq> [] \<and>
    http_get X FORECAST_URL (query_params X (strip (city_entry s))) = Inr (status, JObj kvs) \<and>
    status \<noteq> 200"
  then show "get_forecast X s =
        (Inr JNull,
         s\<lparr>net_log := net_log s @ [(FORECAST_URL, query_params X (strip (city_entry s)))],
           dialogs := dialogs s @
             [ShowError ''API error''
                (py_str X (case map_of kvs ''message'' of
                             None \<Rightarrow> JStr ''Could not fetch forecast'' | Some m \<Rightarrow> m))]\<rparr>)"
    by (simp add: get_forecast_def forecast_body_def request_def seq_def show_dialog_def
          upd_def ret_def lift_def Let_def)
next
  fix data s'
  assume "get_forecast X s = (Inr data, s') \<and> data \<noteq> JNull"
  then show "http_get X FORECAST_URL (query_params X (strip (city_entry s))) = Inr (200, data)"
    using get_forecast_payload [of X s data s'] by simp
qed

section \<open>Runs on the stubbed services\<close>

lemma strip_Bangalore: "strip ''Bangalore'' = ''Bangalore''"
  by (simp add: strip_def is_space_def)

lemma strip_blank: "strip ''  '' = []"
  by (simp add: strip_def is_space_def)

lemma sample_dates: "map entry_date sample_entries =
  [Inr ''05-01'', Inr ''05-01'', Inr ''05-02'', Inr ''05-03'', Inr ''05-04'', Inr ''05-05'', Inr ''05-06'']"
  by (simp add: sample_entries_def sample_entry_def entry_date_def)

theorem five_daily_buckets_witness:
  "subscript_key sample_forecast ''list'' = Inr (JArr sample_entries) \<and>
   5 \<le> length (remdups (map entry_date sample_entries)) \<and>
   (\<exists>days. forecast_buckets sample_forecast = Inr days \<and> length days = 5 \<and>
      distinct (map fst days))"
proof -
  have l: "subscript_key sample_forecast ''list'' = Inr (JArr sample_entries)"
    by (simp add: sample_forecast_def)
  have "\<forall>r\<in>set (map entry_date sample_entries). \<exists>d. r = Inr d"
    unfolding sample_dates by simp
  then have wf: "\<forall>f\<in>set sample_entries. \<exists>d. entry_date f = Inr d" by simp
  have n: "5 \<le> length (remdups (map entry_date sample_entries))"
    unfolding sample_dates by simp
  from five_daily_buckets [OF l wf n] l n show ?thesis by blast
qed

lemma sample_dt_txt: "subscript_key (sample_entry t) ''dt_txt'' = Inr (JStr t)"
  by (simp add: sample_entry_def)

lemma noon_0900: "\<not> at_noon (sample_entry ''05-01 09:00:00'')"
  by (simp add: at_noon_def sample_dt_txt)

lemma noon_1200: "at_noon (sample_entry ''05-01 12:00:00'')"
  by (simp add: at_noon_def sample_dt_txt)

lemma noon_0300: "\<not> at_noon (sample_entry ''05-02 03:00:00'')"
  by (simp add: at_noon_def sample_dt_txt)

theorem representative_noon_or_median_witness:
  "pick_mid [sample_entry ''05-01 09:00:00'', sample_entry ''05-01 12:00:00'']
     = Inr (sample_entry ''05-01 12:00:00'') \<and>
   pick_mid [sample_entry ''05-01 09:00:00'', sample_entry ''05-02 03:00:00'']
     = Inr (sample_entry ''05-02 03:00:00'')"
proof -
  let ?a = "[sample_entry ''05-01 09:00:00'', sample_entry ''05-01 12:00:00'']"
  let ?b = "[sample_entry ''05-01 09:00:00'', sample_entry ''05-02 03:00:00'']"
  have "?a \<noteq> []" and "\<forall>f\<in>set ?a. \<exists>t. subscript_key f ''dt_txt'' = Inr (JStr t)"
    by (simp_all add: sample_dt_txt)
  from representative_noon_or_median [OF this]
  have a: "pick_mid ?a = Inr (sample_entry ''05-01 12:00:00'')"
    using noon_0900 noon_1200 by auto
  have "?b \<noteq> []" and "\<forall>f\<in>set ?b. \<exists>t. subscript_key f ''dt_txt'' = Inr (JStr t)"
    by (simp_all add: sample_dt_txt)
  from representative_noon_or_median [OF this]
  have b: "pick_mid ?b = Inr (sample_entry ''05-02 03:00:00'')"
    using noon_0900 noon_0300 by auto
  from a b show ?thesis by simp
qed

lemma sample_prompt:
  "\<exists>prompt. build_prompt (stub_ext net icon gen) sample_weather sample_forecast = Inr prompt"
  by (simp add: build_prompt_def forecast_summary_def forecast_line_def bnd_def
        sample_weather_def sample_forecast_def sample_entries_def sample_entry_def stub_ext_def)

theorem advisory_stops_at_first_success_witness:
  "analyze_weather_with_ai (stub_ext sample_net no_icon second_answers)
       sample_weather sample_forecast
     = (Inr ''Carry an umbrella. (gemini-flash-latest)'',
        [''gemini-2.0-flash-lite'', ''gemini-flash-latest''])"
proof -
  let ?X = "stub_ext sample_net no_icon second_answers"
  obtain prompt where p: "build_prompt ?X sample_weather sample_forecast = Inr prompt"
    using sample_prompt by blast
  have k: "(1::nat) < length models_to_try" by (simp add: models_to_try_def)
  have fails: "\<forall>i<1::nat. \<exists>e. generate ?X (models_to_try ! i) prompt = Inl e"
    by (simp add: stub_ext_def second_answers_def models_to_try_def)
  have answers: "generate ?X (models_to_try ! 1) prompt
                   = Inr ''Carry an umbrella. (gemini-flash-latest)''"
    by (simp add: stub_ext_def second_answers_def models_to_try_def)
  from advisory_stops_at_first_success [OF p k fails answers]
  show ?thesis by (simp add: models_to_try_def)
qed

theorem advisory_all_models_fail_witness:
  "analyze_weather_with_ai (stub_ext sample_net no_icon none_answers)
       sample_weather sample_forecast
     = (Inr (unavailable @ ''429 quota: gemini-2.0-flash-exp''), models_to_try)"
proof -
  let ?X = "stub_ext sample_net no_icon none_answers"
  obtain prompt where p: "build_prompt ?X sample_weather sample_forecast = Inr prompt"
    using sample_prompt by blast
  have fails: "\<forall>m\<in>set models_to_try. \<exists>e. generate ?X m prompt = Inl e"
    by (simp add: stub_ext_def none_answers_def)
  have lastf: "generate ?X (last models_to_try) prompt
                = Inl (LibraryError ''429 quota: gemini-2.0-flash-exp'')"
    by (simp add: stub_ext_def none_answers_def models_to_try_def)
  from advisory_all_models_fail [OF p fails lastf]
  show ?thesis by (simp add: stub_ext_def)
qed

theorem advisory_never_raises_witness:
  "analyze_body (stub_ext sample_net no_icon second_answers) JNull JNull
     = (Inl AttributeError, []) \<and>
   fst (analyze_weather_with_ai (stub_ext sample_net no_icon second_answers) JNull JNull)
     = Inr ''AI Analysis unavailable: AttributeError''"
proof -
  let ?X = "stub_ext sample_net no_icon second_answers"
  have b: "analyze_body ?X JNull JNull = (Inl AttributeError, [])"
    by (simp add: analyze_body_def build_prompt_def bnd_def)
  with advisory_never_raises [of ?X JNull JNull]
  have "fst (analyze_weather_with_ai ?X JNull JNull)
          = Inr (''AI Analysis unavailable: '' @ str_exc ?X AttributeError)" by blast
  with b show ?thesis by (simp add: stub_ext_def)
qed

theorem empty_city_no_fetch_witness:
  "strip (city_entry (initial_ui ''  '')) = [] \<and>
   get_all_data (stub_ext sample_net no_icon second_answers) (initial_ui ''  '')
     = (Inr (), (initial_ui ''  '')\<lparr>dialogs := [input_warning]\<rparr>) \<and>
   net_log (snd (get_weather (stub_ext sample_net no_icon second_answers) (initial_ui ''  ''))) = [] \<and>
   net_log (snd (get_forecast (stub_ext sample_net no_icon second_answers) (initial_ui ''  ''))) = []"
proof -
  have e: "strip (city_entry (initial_ui ''  '')) = []"
    by (simp add: initial_ui_def strip_blank)
  from empty_city_no_fetch [OF e, of "stub_ext sample_net no_icon second_answers"] e
  show ?thesis by (simp add: initial_ui_def)
qed

lemma sample_rows:
  "table_row (stub_ext net icon gen) (sample_entry t)
     = Inr [''1714561200'', ''21'', ''clear sky'', ''3'', ''60'']"
  by (simp add: table_row_def sample_entry_def bnd_def stub_ext_def)

theorem hourly_table_first_24_witness:
  "subscript_key sample_forecast ''list'' = Inr (JArr sample_entries) \<and>
   fst (display_forecast_table (stub_ext sample_net no_icon second_answers) sample_forecast
          (initial_ui ''Bangalore'')) = Inr () \<and>
   length (table_rows (snd (display_forecast_table (stub_ext sample_net no_icon second_answers)
          sample_forecast (initial_ui ''Bangalore'')))) = 7"
proof -
  let ?X = "stub_ext sample_net no_icon second_answers"
  let ?run = "display_forecast_table ?X sample_forecast (initial_ui ''Bangalore'')"
  have l: "subscript_key sample_forecast ''list'' = Inr (JArr sample_entries)"
    by (simp add: sample_forecast_def)
  have r: "?run = (fst ?run, snd ?run)" by simp
  have wf: "\<forall>f\<in>set (take 24 sample_entries). \<exists>row. table_row ?X f = Inr row"
    by (simp add: sample_entries_def sample_rows)
  have "length sample_entries = 7" by (simp add: sample_entries_def)
  with hourly_table_first_24 [OF l r] wf l show ?thesis by simp
qed

lemma initial_ui_sel:
  "city_entry (initial_ui c) = c" "net_log (initial_ui c) = []" "dialogs (initial_ui c) = []"
  "forecast_cards (initial_ui c) = []" "table_rows (initial_ui c) = []"
  "ai_calls (initial_ui c) = []" "models_called (initial_ui c) = []"
  by (simp_all add: initial_ui_def)

lemma stub_ext_sel:
  "api_key (stub_ext net icon gen) = None"
  "http_get (stub_ext net icon gen) = net"
  "icon_get (stub_ext net icon gen) = icon"
  "generate (stub_ext net icon gen) = gen"
  "str_exc (stub_ext net icon gen) = stub_exc"
  "py_str (stub_ext net icon gen) = stub_str"
  "fmt_1f (stub_ext net icon gen) = (\<lambda>v. Inr (stub_str v))"
  "int_str (stub_ext net icon gen) = (\<lambda>v. Inr (stub_str v))"
  "title (stub_ext net icon gen) = (\<lambda>s. s)"
  "fromtimestamp (stub_ext net icon gen) = (\<lambda>fmt v. Inr (stub_str v))"
  "strptime_day (stub_ext net icon gen) = (\<lambda>d. Inr d)"
  "today (stub_ext net icon gen) = ''today''"
  "set_position (stub_ext net icon gen) = (\<lambda>lat lon. None)"
  "set_marker (stub_ext net icon gen) = (\<lambda>lat lon name. None)"
  by (simp_all add: stub_ext_def)

lemma strip_Mysuru: "strip ''Mysuru'' = ''Mysuru''"
  by (simp add: strip_def is_space_def)


lemma refused_forecast:
  "get_forecast (stub_ext refused_net no_icon second_answers) (initial_ui ''Mysuru'')
     = (Inr refused_payload,
        (initial_ui ''Mysuru'')\<lparr>net_log := [(FORECAST_URL, [(''q'', ''Mysuru''), (''units'', ''metric'')])]\<rparr>)"
  by (simp add: get_forecast_def forecast_body_def strip_Mysuru request_def seq_def
        display_forecast_def display_forecast_table_def forecast_buckets_def bnd_def
        upd_def ret_def lift_def query_params_def Let_def
        stub_ext_sel refused_net_def refused_payload_def initial_ui_sel)

lemma refused_weather:
  "get_weather (stub_ext refused_net no_icon second_answers) (initial_ui ''Mysuru'')
     = (Inr JNull,
        (initial_ui ''Mysuru'')\<lparr>net_log := [(BASE_URL, [(''q'', ''Mysuru''), (''units'', ''metric'')])],
           dialogs := [ShowError ''API error'' (''Error from API:'' @ nl @ ''Invalid API key'')]\<rparr>)"
  by (simp add: get_weather_def weather_reply_def strip_Mysuru request_def seq_def
        show_dialog_def upd_def ret_def lift_def query_params_def Let_def
        stub_ext_sel refused_net_def refused_payload_def initial_ui_sel)

text \<open>
  Claim C6 as stated fails. A response with HTTP status 200 whose payload carries the
  status 401 and a message: the current-conditions fetcher shows the API error and
  returns \<open>None\<close>; the forecast fetcher returns the payload and shows nothing.
\<close>

theorem forecast_ignores_payload_status:
  "dict_get refused_payload ''cod'' JNull = Inr (JInt 401) \<and> ne_200 (JInt 401) \<and>
   http_get (stub_ext refused_net no_icon second_answers) FORECAST_URL
       (query_params (stub_ext refused_net no_icon second_answers) ''Mysuru'')
     = Inr (200, refused_payload) \<and>
   fst (get_forecast (stub_ext refused_net no_icon second_answers) (initial_ui ''Mysuru''))
     = Inr refused_payload \<and>
   dialogs (snd (get_forecast (stub_ext refused_net no_icon second_answers)
                   (initial_ui ''Mysuru''))) = [] \<and>
   fst (get_weather (stub_ext refused_net no_icon second_answers) (initial_ui ''Mysuru''))
     = Inr JNull \<and>
   dialogs (snd (get_weather (stub_ext refused_net no_icon second_answers)
                   (initial_ui ''Mysuru'')))
     = [ShowError ''API error'' (''Error from API:'' @ nl @ ''Invalid API key'')]"
proof -
  have "dict_get refused_payload ''cod'' JNull = Inr (JInt 401)"
    by (simp add: refused_payload_def)
  moreover have "http_get (stub_ext refused_net no_icon second_answers) FORECAST_URL
       (query_params (stub_ext refused_net no_icon second_answers) ''Mysuru'')
     = Inr (200, refused_payload)"
    by (simp add: stub_ext_sel refused_net_def)
  ultimately show ?thesis by (simp add: refused_forecast refused_weather initial_ui_sel)
qed

theorem forecast_fetch_by_http_status_witness:
  "get_forecast (stub_ext missing_net no_icon second_answers) (initial_ui ''Mysuru'')
     = (Inr JNull,
        (initial_ui ''Mysuru'')\<lparr>
           net_log := [(FORECAST_URL, [(''q'', ''Mysuru''), (''units'', ''metric'')])],
           dialogs := [ShowError ''API error'' ''city not found'']\<rparr>) \<and>
   http_get (stub_ext refused_net no_icon second_answers) FORECAST_URL
       (query_params (stub_ext refused_net no_icon second_answers)
          (strip (city_entry (initial_ui ''Mysuru''))))
     = Inr (200, refused_payload)"
proof -
  let ?X = "stub_ext missing_net no_icon second_answers"
  let ?Y = "stub_ext refused_net no_icon second_answers"
  let ?s = "initial_ui ''Mysuru''"
  have a: "strip (city_entry ?s) \<noteq> [] \<and>
    http_get ?X FORECAST_URL (query_params ?X (strip (city_entry ?s)))
      = Inr (404, JObj [(''cod'', JStr ''404''), (''message'', JStr ''city not found'')]) \<and>
    (404::nat) \<noteq> 200"
    by (simp add: strip_Mysuru stub_ext_sel missing_net_def initial_ui_sel)
  have b: "get_forecast ?Y ?s = (Inr refused_payload,
        ?s\<lparr>net_log := [(FORECAST_URL, [(''q'', ''Mysuru''), (''units'', ''metric'')])]\<rparr>) \<and>
      refused_payload \<noteq> JNull"
    by (simp add: refused_forecast refused_payload_def)
  from forecast_fetch_by_http_status
         [of ?s ?X 404 "[(''cod'', JStr ''404''), (''message'', JStr ''city not found'')]"] a
  have 1: "get_forecast ?X ?s =
        (Inr JNull,
         ?s\<lparr>net_log := net_log ?s @ [(FORECAST_URL, query_params ?X (strip (city_entry ?s)))],
           dialogs := dialogs ?s @
             [ShowError ''API error''
                (py_str ?X (case map_of [(''cod'', JStr ''404''), (''message'', JStr ''city not found'')] ''message'' of
                             None \<Rightarrow> JStr ''Could not fetch forecast'' | Some m \<Rightarrow> m))]\<rparr>)"
    by blast
  from forecast_fetch_by_http_status [of ?s ?Y] b
  have 2: "http_get ?Y FORECAST_URL (query_params ?Y (strip (city_entry ?s)))
             = Inr (200, refused_payload)"
    by blast
  from 1 have "get_forecast ?X ?s = (Inr JNull,
        ?s\<lparr>net_log := [(FORECAST_URL, [(''q'', ''Mysuru''), (''units'', ''metric'')])],
           dialogs := [ShowError ''API error'' ''city not found'']\<rparr>)"
    by (simp add: strip_Mysuru query_params_def stub_ext_sel initial_ui_sel)
  with 2 show ?thesis by simp
qed

lemma sample_get_weather:
  assumes "city_entry s = ''Bangalore''"
  shows "fst (get_weather (stub_ext sample_net icon gen) s) = Inr sample_weather \<and>
         city_entry (snd (get_weather (stub_ext sample_net icon gen) s)) = ''Bangalore''"
proof -
  have "fst (weather_reply (stub_ext sample_net icon gen) ''Bangalore'' sample_weather s')
          = Inr sample_weather \<and>
        city_entry (snd (weather_reply (stub_ext sample_net icon gen) ''Bangalore''
          sample_weather s')) = city_entry s'" for s'
    by (simp add: weather_reply_def show_current_def update_map_def map_set_position_def
          map_set_marker_def show_icon_def first_get_def bnd_def seq_def lift_def ret_def
          upd_def Let_def stub_ext_sel sample_weather_def split: sum.splits)
  then show ?thesis
    using assms
    by (simp add: get_weather_def request_def strip_Bangalore sample_net_def stub_ext_sel
          Let_def)
qed

lemma sample_buckets:
  "forecast_buckets sample_forecast =
     Inr [(''05-01'', [sample_entry ''05-01 09:00:00'', sample_entry ''05-01 12:00:00'']),
          (''05-02'', [sample_entry ''05-02 03:00:00'']),
          (''05-03'', [sample_entry ''05-03 03:00:00'']),
          (''05-04'', [sample_entry ''05-04 03:00:00'']),
          (''05-05'', [sample_entry ''05-05 03:00:00''])]"
proof -
  have d: "entry_date (sample_entry t) = Inr (takeWhile (\<lambda>c. c \<noteq> CHR '' '') t)" for t
    by (simp add: entry_date_def sample_entry_def)
  show ?thesis
    by (simp add: forecast_buckets_def sample_forecast_def sample_entries_def d)
qed

lemma sample_first_noon: "\<exists>t. first_noon (map sample_entry ts) (sample_entry t0) = Inr (sample_entry t)"
proof (induction ts)
  case Nil
  show ?case by (simp, rule exI [of _ t0], rule refl)
next
  case (Cons a ts)
  show ?case
  proof (cases "contains ''12:00:00'' a")
    case True
    have "first_noon (map sample_entry (a # ts)) (sample_entry t0) = Inr (sample_entry a)"
      using True by (simp add: sample_dt_txt)
    then show ?thesis by (rule exI)
  next
    case False
    with Cons show ?thesis by (simp add: sample_dt_txt)
  qed
qed

lemma sample_pick_mid: "ts \<noteq> [] \<Longrightarrow> \<exists>t. pick_mid (map sample_entry ts) = Inr (sample_entry t)"
proof -
  assume ne: "ts \<noteq> []"
  then have "length ts div 2 < length ts" by simp
  then have "map sample_entry ts ! (length ts div 2) = sample_entry (ts ! (length ts div 2))"
    by simp
  with ne sample_first_noon [of ts "ts ! (length ts div 2)"] show ?thesis
    by (simp add: pick_mid_def)
qed

lemma sample_render_day:
  assumes "ts \<noteq> []"
  shows "fst (render_day (stub_ext net icon gen) d (map sample_entry ts) s) = Inr ()"
proof -
  obtain t where "pick_mid (map sample_entry ts) = Inr (sample_entry t)"
    using sample_pick_mid [OF assms] by blast
  then show ?thesis
    by (simp add: render_day_def day_icon_def seq_def lift_def bnd_def Let_def
          stub_ext_sel sample_entry_def)
qed

lemma sample_render_days:
  "\<forall>p\<in>set dts. snd p \<noteq> [] \<Longrightarrow>
   fst (render_days (stub_ext net icon gen) (map (\<lambda>p. (fst p, map sample_entry (snd p))) dts) s)
     = Inr ()"
proof (induction dts arbitrary: s)
  case Nil
  then show ?case by simp
next
  case (Cons p dts)
  obtain d ts where p: "p = (d, ts)" by (cases p)
  with Cons.prems have ts: "ts \<noteq> []" by simp
  obtain r s1 where rd: "render_day (stub_ext net icon gen) d (map sample_entry ts) s = (r, s1)"
    by (cases "render_day (stub_ext net icon gen) d (map sample_entry ts) s")
  with sample_render_day [OF ts, of net icon gen d s] have r: "r = Inr ()" by simp
  have "fst (render_days (stub_ext net icon gen)
               (map (\<lambda>p. (fst p, map sample_entry (snd p))) dts) s1) = Inr ()"
    using Cons.IH [of s1] Cons.prems by simp
  with p rd r show ?case by simp
qed

lemma sample_display_forecast:
  "fst (display_forecast (stub_ext net icon gen) sample_forecast s) = Inr ()"
proof -
  let ?dts = "[(''05-01'', [''05-01 09:00:00'', ''05-01 12:00:00'']),
          (''05-02'', [''05-02 03:00:00'']), (''05-03'', [''05-03 03:00:00'']),
          (''05-04'', [''05-04 03:00:00'']), (''05-05'', [''05-05 03:00:00''])]"
  have b: "forecast_buckets sample_forecast
             = Inr (map (\<lambda>p. (fst p, map sample_entry (snd p))) ?dts)"
    by (simp add: sample_buckets)
  have "\<forall>p\<in>set ?dts. snd p \<noteq> []" by simp
  from sample_render_days [OF this, of net icon gen "s\<lparr>forecast_cards := []\<rparr>"]
  show ?thesis
    unfolding display_forecast_def b by (simp only: seq_upd seq_lift_Inr)
qed

lemma sample_insert_rows:
  "fst (insert_rows (stub_ext net icon gen) (map sample_entry ts) s) = Inr ()"
proof (induction ts arbitrary: s)
  case Nil
  show ?case by simp
next
  case (Cons t ts)
  show ?case using Cons [of "s\<lparr>table_rows := table_rows s @ [[''1714561200'', ''21'', ''clear sky'', ''3'', ''60'']]\<rparr>"]
    by (simp add: sample_rows)
qed

lemma sample_display_table:
  "fst (display_forecast_table (stub_ext net icon gen) sample_forecast s) = Inr ()"
proof -
  let ?ts = "[''05-01 09:00:00'', ''05-01 12:00:00'',
     ''05-02 03:00:00'', ''05-03 03:00:00'', ''05-04 03:00:00'', ''05-05 03:00:00'',
     ''05-06 03:00:00'']"
  have "take 24 sample_entries = sample_entries" by (simp add: sample_entries_def)
  moreover have "sample_entries = map sample_entry ?ts" by (simp add: sample_entries_def)
  ultimately have l: "bnd (subscript_key sample_forecast ''list'') (\<lambda>l. bnd (slice_to 24 l) py_iter)
           = Inr (map sample_entry ?ts)"
    by (simp add: sample_forecast_def)
  show ?thesis
    unfolding display_forecast_table_def l
    using sample_insert_rows [of net icon gen ?ts "s\<lparr>table_rows := []\<rparr>"]
    by (simp only: seq_upd seq_lift_Inr)
qed

lemma sample_get_forecast:
  assumes "city_entry s = ''Bangalore''"
  shows "fst (get_forecast (stub_ext sample_net icon gen) s) = Inr sample_forecast"
proof -
  let ?X = "stub_ext sample_net icon gen"
  let ?s1 = "s\<lparr>net_log := net_log s @ [(FORECAST_URL, query_params ?X ''Bangalore'')]\<rparr>"
  obtain u s2 where df: "display_forecast ?X sample_forecast ?s1 = (Inr u, s2)"
    using sample_display_forecast [of sample_net icon gen ?s1]
    by (cases "display_forecast ?X sample_forecast ?s1") auto
  obtain u' s3 where dt: "display_forecast_table ?X sample_forecast s2 = (Inr u', s3)"
    using sample_display_table [of sample_net icon gen s2]
    by (cases "display_forecast_table ?X sample_forecast s2") auto
  have "FORECAST_URL \<noteq> BASE_URL" by (simp add: FORECAST_URL_def BASE_URL_def)
  then have "forecast_body ?X ''Bangalore'' s = (Inr sample_forecast, s3)"
    using df dt
    by (simp add: forecast_body_def request_def seq_def ret_def stub_ext_sel sample_net_def)
  then show ?thesis
    using assms by (simp add: get_forecast_def strip_Bangalore Let_def)
qed

theorem advisory_iff_both_fetches_witness:
  "ai_calls (snd (get_all_data (stub_ext sample_net no_icon second_answers)
                    (initial_ui ''Bangalore'')))
     = [(sample_weather, sample_forecast)]"
proof -
  let ?X = "stub_ext sample_net no_icon second_answers"
  let ?s = "initial_ui ''Bangalore''"
  obtain s1 where gw: "get_weather ?X ?s = (Inr sample_weather, s1)"
    and c1: "city_entry s1 = ''Bangalore''"
    using sample_get_weather [of ?s no_icon second_answers]
    by (cases "get_weather ?X ?s") (simp add: initial_ui_sel)
  obtain s2 where gf: "get_forecast ?X s1 = (Inr sample_forecast, s2)"
    using sample_get_forecast [OF c1, of no_icon second_answers]
    by (cases "get_forecast ?X s1") simp
  have "sample_weather \<noteq> JNull" "sample_forecast \<noteq> JNull"
    by (simp_all add: sample_weather_def sample_forecast_def)
  with gw gf advisory_iff_both_fetches [where X = ?X and s = ?s]
  have "ai_calls (snd (get_all_data ?X ?s)) = ai_calls ?s @ [(sample_weather, sample_forecast)]"
    by blast
  then show ?thesis by (simp add: initial_ui_sel)
qed







end
